theory Spec2Isabelle
  imports Complex_Main
begin

section \<open>Python values and the primitives the ray tracer uses\<close>

text \<open>
  The program is dynamically typed: a layer is a list (or tuple) of arbitrary objects and
  the validator inspects their types at run time. A value is therefore an \<open>int\<close>, a
  \<open>float\<close> or, as the representative of everything that is not a number, a \<open>str\<close>.
  Floats are idealised as real numbers: \<open>math.sin\<close>, \<open>math.asin\<close>, \<open>math.tan\<close> and
  \<open>math.sqrt\<close> are the real functions, without rounding, infinities or NaN.
  (\<open>tan\<close> of an odd multiple of 90 degrees is 0 in HOL and a huge finite number in
  Python; no statement below depends on the horizontal offset at such an angle.)
\<close>

datatype pyval = PInt int | PFloat real | PStr string

datatype py_error = TypeError | IndexError | ZeroDivisionError

text \<open>Sequencing of computations that may raise: the first exception wins.\<close>

definition and_then :: "py_error + 'a \<Rightarrow> ('a \<Rightarrow> py_error + 'b) \<Rightarrow> py_error + 'b" where
  "and_then r f = (case r of Inl e \<Rightarrow> Inl e | Inr v \<Rightarrow> f v)"

text \<open>\<open>xs[i]\<close> for a non-negative index: IndexError past the end.\<close>

definition py_getitem :: "'a list \<Rightarrow> nat \<Rightarrow> py_error + 'a" where
  "py_getitem xs i = (if i < length xs then Inr (xs ! i) else Inl IndexError)"

text \<open>The number a value denotes in arithmetic and in the \<open>math\<close> functions; a \<open>str\<close> raises.\<close>

fun py_float :: "pyval \<Rightarrow> py_error + real" where
  "py_float (PInt n) = Inr (of_int n)"
| "py_float (PFloat r) = Inr r"
| "py_float (PStr s) = Inl TypeError"

text \<open>\<open>type(v) is int\<close>.\<close>

fun type_is_int :: "pyval \<Rightarrow> bool" where
  "type_is_int (PInt n) = True"
| "type_is_int (PFloat r) = False"
| "type_is_int (PStr s) = False"

text \<open>\<open>type(v) is not int\<close>.\<close>

definition type_is_not_int :: "pyval \<Rightarrow> bool" where
  "type_is_not_int v = (if type_is_int v then False else True)"

text \<open>The truth value of the class object \<open>float\<close>, which is what \<open>... or float\<close> tests.\<close>

definition float_class_truthy :: bool where
  "float_class_truthy = True"

text \<open>
  \<open>x in range(a, b)\<close>. \<open>range\<close> takes integers only (TypeError otherwise). An \<open>int\<close> is a
  member when \<open>a \<le> x < b\<close>; any other object is compared with \<open>==\<close> against each integer
  of the range, so a float is a member only when it is a whole number of the range, and a
  string never is.
\<close>

fun py_in_range :: "pyval \<Rightarrow> pyval \<Rightarrow> pyval \<Rightarrow> py_error + bool" where
  "py_in_range (PInt x) (PInt a) (PInt b) = Inr (a \<le> x \<and> x < b)"
| "py_in_range (PFloat r) (PInt a) (PInt b) =
     Inr (of_int \<lfloor>r\<rfloor> = r \<and> a \<le> \<lfloor>r\<rfloor> \<and> \<lfloor>r\<rfloor> < b)"
| "py_in_range (PStr s) (PInt a) (PInt b) = Inr False"
| "py_in_range x a b = Inl TypeError"

text \<open>\<open>v > 0\<close>: a string cannot be ordered against an integer.\<close>

definition py_gt_zero :: "pyval \<Rightarrow> py_error + bool" where
  "py_gt_zero v = and_then (py_float v) (\<lambda>r. Inr (0 < r))"

text \<open>\<open>a - b\<close> and \<open>a / b\<close> on numbers.\<close>

definition py_sub :: "pyval \<Rightarrow> pyval \<Rightarrow> py_error + real" where
  "py_sub a b = and_then (py_float a) (\<lambda>x. and_then (py_float b) (\<lambda>y. Inr (x - y)))"

definition py_truediv :: "pyval \<Rightarrow> pyval \<Rightarrow> py_error + real" where
  "py_truediv a b =
     and_then (py_float a) (\<lambda>x. and_then (py_float b) (\<lambda>y.
       if y = 0 then Inl ZeroDivisionError else Inr (x / y)))"

text \<open>\<open>a == b\<close>: numbers compare by value across \<open>int\<close> and \<open>float\<close>.\<close>

fun py_eq :: "pyval \<Rightarrow> pyval \<Rightarrow> bool" where
  "py_eq (PStr s) (PStr t) = (s = t)"
| "py_eq (PStr s) b = False"
| "py_eq a (PStr t) = False"
| "py_eq (PInt m) (PInt n) = (m = n)"
| "py_eq (PInt m) (PFloat r) = (of_int m = r)"
| "py_eq (PFloat r) (PInt n) = (r = of_int n)"
| "py_eq (PFloat r) (PFloat q) = (r = q)"

definition radians :: "real \<Rightarrow> real" where
  "radians x = x * pi / 180"

definition degrees :: "real \<Rightarrow> real" where
  "degrees x = x * 180 / pi"

section \<open>The validator\<close>

type_synonym layer = "pyval list"
type_synonym seismic_model = "layer list"

fun is_layer_data_count_correct :: "seismic_model \<Rightarrow> bool" where
  "is_layer_data_count_correct [] = True"
| "is_layer_data_count_correct (layer # rest) =
     (if length layer = 3 then is_layer_data_count_correct rest else False)"

text \<open>
  The inner loop \<open>for i in range(3)\<close> of the type check, over the indices still to visit:
  \<open>if type(layer[i]) is int or float: continue else: return False\<close>.
\<close>

fun layer_fields_typed :: "layer \<Rightarrow> nat list \<Rightarrow> py_error + bool" where
  "layer_fields_typed layer [] = Inr True"
| "layer_fields_typed layer (i # rest) =
     and_then (py_getitem layer i) (\<lambda>v.
       if type_is_int v \<or> float_class_truthy then layer_fields_typed layer rest
       else Inr False)"

fun layers_typed :: "seismic_model \<Rightarrow> py_error + bool" where
  "layers_typed [] = Inr True"
| "layers_typed (layer # rest) =
     and_then (layer_fields_typed layer [0, 1, 2]) (\<lambda>ok.
       if ok then layers_typed rest else Inr False)"

definition is_input_data_integer_or_float ::
    "seismic_model \<Rightarrow> pyval \<Rightarrow> pyval \<Rightarrow> py_error + bool" where
  "is_input_data_integer_or_float model incid_angle source_depth =
     and_then (layers_typed model) (\<lambda>ok.
       if \<not> ok then Inr False
       else if type_is_not_int incid_angle \<or> float_class_truthy then Inr False
       else if type_is_not_int source_depth \<or> float_class_truthy then Inr False
       else Inr True)"

fun is_speed_data_correct :: "seismic_model \<Rightarrow> py_error + bool" where
  "is_speed_data_correct [] = Inr True"
| "is_speed_data_correct (layer # rest) =
     and_then (py_getitem layer 2) (\<lambda>speed.
     and_then (py_gt_zero speed) (\<lambda>positive.
       if positive then is_speed_data_correct rest else Inr False))"

text \<open>\<open>source_depth in range(layer[0], layer[1])\<close>, the test both containment functions make.\<close>

definition source_in_layer :: "pyval \<Rightarrow> layer \<Rightarrow> py_error + bool" where
  "source_in_layer source_depth layer =
     and_then (py_getitem layer 0) (\<lambda>top.
     and_then (py_getitem layer 1) (\<lambda>bottom.
       py_in_range source_depth top bottom))"

fun is_source_occur_in_seismic_model :: "seismic_model \<Rightarrow> pyval \<Rightarrow> py_error + bool" where
  "is_source_occur_in_seismic_model [] source_depth = Inr False"
| "is_source_occur_in_seismic_model (layer # rest) source_depth =
     and_then (source_in_layer source_depth layer) (\<lambda>inside.
       if inside then Inr True else is_source_occur_in_seismic_model rest source_depth)"

definition is_layer_exist_source :: "seismic_model \<Rightarrow> pyval \<Rightarrow> nat \<Rightarrow> py_error + bool" where
  "is_layer_exist_source model source_depth layer_number =
     and_then (py_getitem model layer_number) (\<lambda>layer.
     and_then (source_in_layer source_depth layer) (\<lambda>inside.
       if \<not> inside then Inr False else Inr True))"

section \<open>The ray tracer\<close>

definition get_thickness :: "pyval \<Rightarrow> pyval \<Rightarrow> py_error + real" where
  "get_thickness layer_bottom layer_top =
     and_then (py_sub layer_bottom layer_top) (\<lambda>diff. Inr \<bar>diff\<bar>)"

text \<open>
  \<open>count_angle\<close> returns the integer \<open>-2\<close> as its sign for total reflection and the
  float \<open>degrees(asin(sin_beta))\<close> otherwise. Which of these floats the loop's test
  \<open>cur_angle == -2\<close> takes for the sign depends on how the program rounds them; what is
  stated about that test is stated on \<open>count_angle_with\<close> below, where the rounded values
  are parameters.
\<close>

definition count_angle :: "pyval \<Rightarrow> pyval \<Rightarrow> pyval \<Rightarrow> py_error + pyval" where
  "count_angle cur_angle lower_layer_speed upper_layer_speed =
     and_then (py_float cur_angle) (\<lambda>angle.
     and_then (py_truediv upper_layer_speed lower_layer_speed) (\<lambda>ratio.
       let sin_beta = sin (radians angle) * ratio in
       if \<bar>sin_beta\<bar> > 1 then Inr (PInt (- 2))
       else Inr (PFloat (degrees (arcsin sin_beta)))))"

definition find_x_length :: "pyval \<Rightarrow> real \<Rightarrow> py_error + real" where
  "find_x_length triangle_angle thickness =
     and_then (py_float triangle_angle) (\<lambda>angle. Inr (tan (radians angle) * thickness))"

definition find_ray_length :: "real \<Rightarrow> real \<Rightarrow> real" where
  "find_ray_length thickness x_length = sqrt (thickness ^ 2 + x_length ^ 2)"

definition count_ray_duration :: "real \<Rightarrow> pyval \<Rightarrow> py_error + real" where
  "count_ray_duration ray_length layer_speed = py_truediv (PFloat ray_length) layer_speed"

text \<open>
  The state of the loop of \<open>calculate_ray_tracing_values\<close>: the two result lists (a pair per
  traversed layer), the current angle and the counter that records that the source layer has
  been met.
\<close>

record trace_state =
  layers_values :: "(real \<times> real) list"
  label_values :: "(pyval \<times> real) list"
  cur_angle :: pyval
  existing_counter :: nat

datatype 'a flow = Continue 'a | Break 'a

text \<open>A \<open>for\<close> loop over a list of indices whose body may \<open>continue\<close>, \<open>break\<close> or raise.\<close>

fun for_loop :: "(nat \<Rightarrow> 's \<Rightarrow> py_error + 's flow) \<Rightarrow> nat list \<Rightarrow> 's \<Rightarrow> py_error + 's" where
  "for_loop body [] st = Inr st"
| "for_loop body (i # rest) st =
     (case body i st of
        Inl e \<Rightarrow> Inl e
      | Inr (Continue st') \<Rightarrow> for_loop body rest st'
      | Inr (Break st') \<Rightarrow> Inr st')"

text \<open>
  The second half of the loop body, from \<open>find_x_length\<close> on: it records the layer under
  the current angle and, unless this is the last layer, refracts into the next one.
\<close>

definition trace_layer ::
    "seismic_model \<Rightarrow> nat \<Rightarrow> real \<Rightarrow> trace_state \<Rightarrow> py_error + trace_state flow" where
  "trace_layer model i thickness st =
     and_then (find_x_length (cur_angle st) thickness) (\<lambda>x_length.
     let ray_length = find_ray_length thickness x_length in
     and_then (py_getitem model i) (\<lambda>layer.
     and_then (py_getitem layer 2) (\<lambda>layer_speed.
     and_then (count_ray_duration ray_length layer_speed) (\<lambda>time.
     let st1 = st\<lparr>layers_values := layers_values st @ [(x_length, thickness)],
                   label_values := label_values st @ [(cur_angle st, time)]\<rparr> in
     if int i = int (length model) - 1 then Inr (Continue st1)
     else
       and_then (py_getitem model (i + 1)) (\<lambda>next_layer.
       and_then (py_getitem next_layer 2) (\<lambda>upper_layer_speed.
       and_then (count_angle (cur_angle st) layer_speed upper_layer_speed) (\<lambda>new_angle.
         if py_eq new_angle (PInt (- 2)) then Inr (Break (st1\<lparr>cur_angle := new_angle\<rparr>))
         else Inr (Continue (st1\<lparr>cur_angle := new_angle\<rparr>)))))))))"

text \<open>
  The loop body. The first layer that holds the source resets the angle to the caller's and
  measures the thickness from the source depth; layers before it are skipped.
\<close>

definition loop_body ::
    "seismic_model \<Rightarrow> pyval \<Rightarrow> pyval \<Rightarrow> nat \<Rightarrow> trace_state \<Rightarrow> py_error + trace_state flow" where
  "loop_body model incid_angle source_depth i st =
     and_then (is_layer_exist_source model source_depth i) (\<lambda>is_exist.
     and_then (py_getitem model i) (\<lambda>layer.
     and_then (py_getitem layer 1) (\<lambda>bottom.
     and_then (py_getitem layer 0) (\<lambda>top.
     and_then (get_thickness bottom top) (\<lambda>thickness.
       if is_exist \<and> existing_counter st = 0 then
         and_then (get_thickness bottom source_depth) (\<lambda>source_thickness.
           trace_layer model i source_thickness
             (st\<lparr>cur_angle := incid_angle, existing_counter := existing_counter st + 1\<rparr>))
       else if \<not> is_exist \<and> existing_counter st = 0 then Inr (Continue st)
       else trace_layer model i thickness st)))))"

definition initial_state :: trace_state where
  "initial_state =
     \<lparr>layers_values = [], label_values = [], cur_angle = PInt 0, existing_counter = 0\<rparr>"

definition calculate_ray_tracing_values ::
    "seismic_model \<Rightarrow> pyval \<Rightarrow> pyval \<Rightarrow> py_error + ((real \<times> real) list \<times> (pyval \<times> real) list)" where
  "calculate_ray_tracing_values model incid_angle source_depth =
     and_then (for_loop (loop_body model incid_angle source_depth) [0..<length model] initial_state)
       (\<lambda>st. Inr (layers_values st, label_values st))"

text \<open>
  \<open>create_coordinates\<close>: the lists \<open>x\<close> and \<open>y\<close> start as \<open>[0]\<close> and \<open>[source_depth]\<close>; every
  pair of \<open>layers_values\<close> appends the sum of its entry and the last coordinate.
\<close>

fun extend_coordinates ::
    "(real \<times> real) list \<Rightarrow> pyval list \<Rightarrow> pyval list \<Rightarrow> py_error + (pyval list \<times> pyval list)" where
  "extend_coordinates [] x y = Inr (x, y)"
| "extend_coordinates ((dx, dy) # rest) x y =
     and_then (py_float (last x)) (\<lambda>x_prev.
     and_then (py_float (last y)) (\<lambda>y_prev.
       extend_coordinates rest (x @ [PFloat (dx + x_prev)]) (y @ [PFloat (dy + y_prev)])))"

definition create_coordinates ::
    "pyval \<Rightarrow> (real \<times> real) list \<Rightarrow> py_error + (pyval list \<times> pyval list)" where
  "create_coordinates source_depth layers_vals =
     extend_coordinates layers_vals [PInt 0] [source_depth]"

text \<open>
  \<open>trace_ray\<close> hands the coordinates and the labels to the plotting calls, which are outside
  the model; the value here is what they receive.
\<close>

record trace_result =
  coords_x :: "pyval list"
  coords_y :: "pyval list"
  labels :: "(pyval \<times> real) list"

definition trace_ray :: "seismic_model \<Rightarrow> pyval \<Rightarrow> pyval \<Rightarrow> py_error + trace_result" where
  "trace_ray model incid_angle source_depth =
     and_then (calculate_ray_tracing_values model incid_angle source_depth) (\<lambda>(layers_vals, label_vals).
     and_then (create_coordinates source_depth layers_vals) (\<lambda>(x, y).
       Inr \<lparr>coords_x = x, coords_y = y, labels = label_vals\<rparr>))"

datatype outcome = Message string | Traced trace_result

definition check_input_data_correctness ::
    "seismic_model \<Rightarrow> pyval \<Rightarrow> pyval \<Rightarrow> py_error + outcome" where
  "check_input_data_correctness model incid_angle source_depth =
     (if \<not> is_layer_data_count_correct model then Inr (Message ''Layer data is incorrect'')
      else
        and_then (is_input_data_integer_or_float model incid_angle source_depth) (\<lambda>numeric.
        if \<not> numeric then Inr (Message ''Input data is not integer or float'')
        else
          and_then (is_speed_data_correct model) (\<lambda>speed_ok.
          if \<not> speed_ok then Inr (Message ''Speed value is not correct'')
          else
            and_then (is_source_occur_in_seismic_model model source_depth) (\<lambda>occurs.
            if \<not> occurs then Inr (Message ''Source dont occur in seismic model.'')
            else and_then (trace_ray model incid_angle source_depth) (\<lambda>r. Inr (Traced r))))))"

section \<open>Notions used to state the properties\<close>

text \<open>The number a numeric value stands for (0 for a string, which no statement relies on).\<close>

fun py_value :: "pyval \<Rightarrow> real" where
  "py_value (PInt n) = of_int n"
| "py_value (PFloat r) = r"
| "py_value (PStr s) = 0"

fun is_number :: "pyval \<Rightarrow> bool" where
  "is_number (PInt n) = True"
| "is_number (PFloat r) = True"
| "is_number (PStr s) = False"

text \<open>
  A layer the tracer can work with: exactly three fields, integer top and bottom (\<open>range\<close>
  accepts nothing else) and a positive numeric velocity.
\<close>

fun valid_layer :: "layer \<Rightarrow> bool" where
  "valid_layer [PInt t, PInt b, velocity] = (is_number velocity \<and> 0 < py_value velocity)"
| "valid_layer layer = False"

text \<open>
  A valid input: every layer is valid, the incidence angle is a number and the program's own
  containment check finds the source in the model.
\<close>

definition valid_input :: "seismic_model \<Rightarrow> pyval \<Rightarrow> pyval \<Rightarrow> bool" where
  "valid_input model incid_angle source_depth =
     (list_all valid_layer model \<and> is_number incid_angle \<and>
      is_source_occur_in_seismic_model model source_depth = Inr True)"

text \<open>The index of the first layer whose range holds the source (the length of the model if none does).\<close>

definition source_index :: "seismic_model \<Rightarrow> pyval \<Rightarrow> nat" where
  "source_index model source_depth =
     length (takeWhile (\<lambda>layer. source_in_layer source_depth layer \<noteq> Inr True) model)"

definition layer_top :: "layer \<Rightarrow> real" where
  "layer_top layer = py_value (layer ! 0)"

definition layer_bottom :: "layer \<Rightarrow> real" where
  "layer_bottom layer = py_value (layer ! 1)"

definition layer_velocity :: "layer \<Rightarrow> real" where
  "layer_velocity layer = py_value (layer ! 2)"

text \<open>
  What one traversed layer contributes: horizontal offset, thickness, entry angle and travel
  time, as the loop body computes them.
\<close>

definition segment :: "pyval \<Rightarrow> real \<Rightarrow> layer \<Rightarrow> real \<times> real \<times> pyval \<times> real" where
  "segment angle thickness layer =
     (let x_length = tan (radians (py_value angle)) * thickness
      in (x_length, thickness, angle, find_ray_length thickness x_length / layer_velocity layer))"

text \<open>
  The segments of a ray that enters the first of the given layers under \<open>angle\<close> and crosses
  \<open>thickness\<close> of it, as a recursion over the layers: the closed form of the loop once the
  source layer is reached. It is related to the loop by \<open>calculate_ray_tracing_values_valid\<close>.
\<close>

fun ray_segments :: "pyval \<Rightarrow> real \<Rightarrow> layer list \<Rightarrow> (real \<times> real \<times> pyval \<times> real) list" where
  "ray_segments angle thickness [] = []"
| "ray_segments angle thickness (layer # rest) =
     segment angle thickness layer #
     (case rest of
        [] \<Rightarrow> []
      | next_layer # deeper \<Rightarrow>
          (case count_angle angle (layer ! 2) (next_layer ! 2) of
             Inl e \<Rightarrow> []
           | Inr new_angle \<Rightarrow>
               if py_eq new_angle (PInt (- 2)) then []
               else ray_segments new_angle \<bar>layer_bottom next_layer - layer_top next_layer\<bar> rest))"

definition segment_offsets :: "(real \<times> real \<times> pyval \<times> real) list \<Rightarrow> (real \<times> real) list" where
  "segment_offsets segs = map (\<lambda>(x_length, thickness, angle, time). (x_length, thickness)) segs"

definition segment_labels :: "(real \<times> real \<times> pyval \<times> real) list \<Rightarrow> (pyval \<times> real) list" where
  "segment_labels segs = map (\<lambda>(x_length, thickness, angle, time). (angle, time)) segs"

text \<open>The segments of the whole ray: from the source depth in the source layer downwards.\<close>

definition traced_segments ::
    "seismic_model \<Rightarrow> pyval \<Rightarrow> pyval \<Rightarrow> (real \<times> real \<times> pyval \<times> real) list" where
  "traced_segments model incid_angle source_depth =
     ray_segments incid_angle
       \<bar>layer_bottom (model ! source_index model source_depth) - py_value source_depth\<bar>
       (drop (source_index model source_depth) model)"

section \<open>The tracer with the rounding of \<open>count_angle\<close> left open\<close>

text \<open>
  \<open>count_angle\<close> compares a double that \<open>sin\<close>, \<open>asin\<close>, \<open>radians\<close> and \<open>degrees\<close> have
  rounded with \<open>-2\<close>, and real arithmetic does not tell when that comparison holds. Here
  the two expressions of \<open>count_angle\<close> are parameters: \<open>sin_beta_of a u l\<close> stands for the
  double \<open>sin(radians(a)) * (u / l)\<close> and \<open>asin_degrees s\<close> for the double
  \<open>degrees(asin(s))\<close>, whatever they are. Everything else is as above, and the functions above
  are the instance with exact arithmetic (\<open>exact_sin_beta\<close>, \<open>exact_asin_degrees\<close> and \<open>trace_ray_with_exact\<close>).
\<close>

definition count_angle_with ::
    "(real \<Rightarrow> real \<Rightarrow> real \<Rightarrow> real) \<Rightarrow> (real \<Rightarrow> real) \<Rightarrow>
     pyval \<Rightarrow> pyval \<Rightarrow> pyval \<Rightarrow> py_error + pyval" where
  "count_angle_with sin_beta_of asin_degrees current_angle lower_layer_speed upper_layer_speed =
     and_then (py_float current_angle) (\<lambda>angle.
     and_then (py_float upper_layer_speed) (\<lambda>upper.
     and_then (py_float lower_layer_speed) (\<lambda>lower.
       if lower = 0 then Inl ZeroDivisionError
       else
         let sin_beta = sin_beta_of angle upper lower in
         if \<bar>sin_beta\<bar> > 1 then Inr (PInt (- 2))
         else Inr (PFloat (asin_degrees sin_beta)))))"

definition trace_layer_with ::
    "(real \<Rightarrow> real \<Rightarrow> real \<Rightarrow> real) \<Rightarrow> (real \<Rightarrow> real) \<Rightarrow>
     seismic_model \<Rightarrow> nat \<Rightarrow> real \<Rightarrow> trace_state \<Rightarrow> py_error + trace_state flow" where
  "trace_layer_with sin_beta_of asin_degrees model i thickness st =
     and_then (find_x_length (cur_angle st) thickness) (\<lambda>x_length.
     let ray_length = find_ray_length thickness x_length in
     and_then (py_getitem model i) (\<lambda>layer.
     and_then (py_getitem layer 2) (\<lambda>layer_speed.
     and_then (count_ray_duration ray_length layer_speed) (\<lambda>time.
     let st1 = st\<lparr>layers_values := layers_values st @ [(x_length, thickness)],
                   label_values := label_values st @ [(cur_angle st, time)]\<rparr> in
     if int i = int (length model) - 1 then Inr (Continue st1)
     else
       and_then (py_getitem model (i + 1)) (\<lambda>next_layer.
       and_then (py_getitem next_layer 2) (\<lambda>upper_layer_speed.
       and_then (count_angle_with sin_beta_of asin_degrees (cur_angle st) layer_speed
           upper_layer_speed) (\<lambda>new_angle.
         if py_eq new_angle (PInt (- 2)) then Inr (Break (st1\<lparr>cur_angle := new_angle\<rparr>))
         else Inr (Continue (st1\<lparr>cur_angle := new_angle\<rparr>)))))))))"

definition loop_body_with ::
    "(real \<Rightarrow> real \<Rightarrow> real \<Rightarrow> real) \<Rightarrow> (real \<Rightarrow> real) \<Rightarrow>
     seismic_model \<Rightarrow> pyval \<Rightarrow> pyval \<Rightarrow> nat \<Rightarrow> trace_state \<Rightarrow> py_error + trace_state flow" where
  "loop_body_with sin_beta_of asin_degrees model incid_angle source_depth i st =
     and_then (is_layer_exist_source model source_depth i) (\<lambda>is_exist.
     and_then (py_getitem model i) (\<lambda>layer.
     and_then (py_getitem layer 1) (\<lambda>bottom.
     and_then (py_getitem layer 0) (\<lambda>top.
     and_then (get_thickness bottom top) (\<lambda>thickness.
       if is_exist \<and> existing_counter st = 0 then
         and_then (get_thickness bottom source_depth) (\<lambda>source_thickness.
           trace_layer_with sin_beta_of asin_degrees model i source_thickness
             (st\<lparr>cur_angle := incid_angle, existing_counter := existing_counter st + 1\<rparr>))
       else if \<not> is_exist \<and> existing_counter st = 0 then Inr (Continue st)
       else trace_layer_with sin_beta_of asin_degrees model i thickness st)))))"

definition calculate_ray_tracing_values_with ::
    "(real \<Rightarrow> real \<Rightarrow> real \<Rightarrow> real) \<Rightarrow> (real \<Rightarrow> real) \<Rightarrow>
     seismic_model \<Rightarrow> pyval \<Rightarrow> pyval \<Rightarrow>
     py_error + ((real \<times> real) list \<times> (pyval \<times> real) list)" where
  "calculate_ray_tracing_values_with sin_beta_of asin_degrees model incid_angle source_depth =
     and_then (for_loop (loop_body_with sin_beta_of asin_degrees model incid_angle source_depth)
         [0..<length model] initial_state)
       (\<lambda>st. Inr (layers_values st, label_values st))"

definition trace_ray_with ::
    "(real \<Rightarrow> real \<Rightarrow> real \<Rightarrow> real) \<Rightarrow> (real \<Rightarrow> real) \<Rightarrow>
     seismic_model \<Rightarrow> pyval \<Rightarrow> pyval \<Rightarrow> py_error + trace_result" where
  "trace_ray_with sin_beta_of asin_degrees model incid_angle source_depth =
     and_then (calculate_ray_tracing_values_with sin_beta_of asin_degrees model incid_angle
         source_depth) (\<lambda>(layers_vals, label_vals).
     and_then (create_coordinates source_depth layers_vals) (\<lambda>(x, y).
       Inr \<lparr>coords_x = x, coords_y = y, labels = label_vals\<rparr>))"

text \<open>The two expressions in exact arithmetic.\<close>

definition exact_sin_beta :: "real \<Rightarrow> real \<Rightarrow> real \<Rightarrow> real" where
  "exact_sin_beta angle upper lower = sin (radians angle) * (upper / lower)"

definition exact_asin_degrees :: "real \<Rightarrow> real" where
  "exact_asin_degrees sin_beta = degrees (arcsin sin_beta)"

text \<open>The closed form of the loop, as \<open>ray_segments\<close> and \<open>traced_segments\<close> above.\<close>

fun ray_segments_with ::
    "(real \<Rightarrow> real \<Rightarrow> real \<Rightarrow> real) \<Rightarrow> (real \<Rightarrow> real) \<Rightarrow>
     pyval \<Rightarrow> real \<Rightarrow> layer list \<Rightarrow> (real \<times> real \<times> pyval \<times> real) list" where
  "ray_segments_with sin_beta_of asin_degrees angle thickness [] = []"
| "ray_segments_with sin_beta_of asin_degrees angle thickness (layer # rest) =
     segment angle thickness layer #
     (case rest of
        [] \<Rightarrow> []
      | next_layer # deeper \<Rightarrow>
          (case count_angle_with sin_beta_of asin_degrees angle (layer ! 2) (next_layer ! 2) of
             Inl e \<Rightarrow> []
           | Inr new_angle \<Rightarrow>
               if py_eq new_angle (PInt (- 2)) then []
               else ray_segments_with sin_beta_of asin_degrees new_angle
                 \<bar>layer_bottom next_layer - layer_top next_layer\<bar> rest))"

definition traced_segments_with ::
    "(real \<Rightarrow> real \<Rightarrow> real \<Rightarrow> real) \<Rightarrow> (real \<Rightarrow> real) \<Rightarrow>
     seismic_model \<Rightarrow> pyval \<Rightarrow> pyval \<Rightarrow> (real \<times> real \<times> pyval \<times> real) list" where
  "traced_segments_with sin_beta_of asin_degrees model incid_angle source_depth =
     ray_segments_with sin_beta_of asin_degrees incid_angle
       \<bar>layer_bottom (model ! source_index model source_depth) - py_value source_depth\<bar>
       (drop (source_index model source_depth) model)"

section \<open>Sequencing and the validator\<close>

lemma and_then_Inr [simp]: "and_then (Inr v) f = f v"
  by (simp add: and_then_def)

lemma and_then_Inl [simp]: "and_then (Inl e) f = Inl e"
  by (simp add: and_then_def)

lemma count_correct_iff:
  "is_layer_data_count_correct model \<longleftrightarrow> (\<forall>layer \<in> set model. length layer = 3)"
  by (induction model) auto

lemma layer_fields_typed_three:
  "length layer = 3 \<Longrightarrow> layer_fields_typed layer [0, 1, 2] = Inr True"
  by (simp add: py_getitem_def float_class_truthy_def)

lemma layers_typed_counted:
  "is_layer_data_count_correct model \<Longrightarrow> layers_typed model = Inr True"
  by (induction model) (auto simp: py_getitem_def float_class_truthy_def split: if_splits)

lemma numeric_check_never_passes:
  "is_input_data_integer_or_float model incid_angle source_depth \<noteq> Inr True"
  by (auto simp: is_input_data_integer_or_float_def and_then_def float_class_truthy_def
      split: sum.splits)

lemma numeric_check_counted:
  "is_layer_data_count_correct model \<Longrightarrow>
     is_input_data_integer_or_float model incid_angle source_depth = Inr False"
  by (simp add: is_input_data_integer_or_float_def layers_typed_counted float_class_truthy_def)

lemma valid_layer_shape:
  "valid_layer layer \<Longrightarrow>
     \<exists>t b v. layer = [PInt t, PInt b, v] \<and> is_number v \<and> 0 < py_value v"
  by (induction layer rule: valid_layer.induct) simp_all

lemma py_float_number: "is_number v \<Longrightarrow> py_float v = Inr (py_value v)"
  by (cases v) simp_all

lemma source_in_layer_valid:
  "valid_layer layer \<Longrightarrow> \<exists>inside. source_in_layer source_depth layer = Inr inside"
  by (cases source_depth) (auto dest!: valid_layer_shape simp: source_in_layer_def py_getitem_def)

lemma source_in_layer_number:
  "valid_layer layer \<Longrightarrow> source_in_layer source_depth layer = Inr True \<Longrightarrow> is_number source_depth"
  by (cases source_depth) (auto dest!: valid_layer_shape simp: source_in_layer_def py_getitem_def)

lemma valid_model_count:
  "list_all valid_layer model \<Longrightarrow> is_layer_data_count_correct model"
  by (induction model) (auto dest!: valid_layer_shape)

lemma valid_model_speed:
  "list_all valid_layer model \<Longrightarrow> is_speed_data_correct model = Inr True"
  by (induction model) (auto dest!: valid_layer_shape simp: py_getitem_def py_gt_zero_def py_float_number)

lemma count_angle_number:
  assumes "is_number angle" "is_number lower" "py_value lower \<noteq> 0" "is_number upper"
  shows "count_angle angle lower upper =
     Inr (if \<bar>sin (radians (py_value angle)) * (py_value upper / py_value lower)\<bar> > 1 then PInt (- 2)
          else PFloat (degrees (arcsin (sin (radians (py_value angle)) * (py_value upper / py_value lower)))))"
  using assms by (simp add: count_angle_def py_truediv_def py_float_number Let_def)

lemma count_angle_result_number:
  "count_angle angle lower upper = Inr new_angle \<Longrightarrow> is_number new_angle"
  by (auto simp: count_angle_def and_then_def Let_def split: sum.splits if_splits)

lemma trace_layer_valid:
  assumes "list_all valid_layer model" "i < length model" "is_number (cur_angle st)"
  shows "trace_layer model i thickness st =
     (case segment (cur_angle st) thickness (model ! i) of (x_length, th, angle, time) \<Rightarrow>
        let st1 = st\<lparr>layers_values := layers_values st @ [(x_length, thickness)],
                     label_values := label_values st @ [(cur_angle st, time)]\<rparr> in
        if Suc i = length model then Inr (Continue st1)
        else (case count_angle (cur_angle st) (model ! i ! 2) (model ! Suc i ! 2) of
                Inl e \<Rightarrow> Inl e
              | Inr new_angle \<Rightarrow>
                  if py_eq new_angle (PInt (- 2)) then Inr (Break (st1\<lparr>cur_angle := new_angle\<rparr>))
                  else Inr (Continue (st1\<lparr>cur_angle := new_angle\<rparr>))))"
proof -
  from assms(1,2) have "valid_layer (model ! i)"
    by (simp add: list_all_length)
  then obtain t b v where layer: "model ! i = [PInt t, PInt b, v]" "is_number v" "0 < py_value v"
    by (auto dest!: valid_layer_shape)
  show ?thesis
  proof (cases "Suc i = length model")
    case True
    then show ?thesis
      using assms(2,3) layer
      by (simp add: trace_layer_def segment_def find_x_length_def py_float_number py_getitem_def
          count_ray_duration_def py_truediv_def layer_velocity_def Let_def)
  next
    case False
    with assms(2) have "Suc i < length model" by simp
    with assms(1) have "valid_layer (model ! Suc i)" by (simp add: list_all_length)
    then obtain t' b' v' where next_layer: "model ! Suc i = [PInt t', PInt b', v']"
      by (auto dest!: valid_layer_shape)
    from False have not_last: "int i \<noteq> int (length model) - 1" by linarith
    show ?thesis
      using assms(2,3) layer next_layer False not_last \<open>Suc i < length model\<close>
      by (simp add: trace_layer_def segment_def find_x_length_def py_float_number py_getitem_def
          count_ray_duration_def py_truediv_def layer_velocity_def Let_def and_then_def
          split: sum.splits)
  qed
qed

lemma is_layer_exist_source_eq:
  "i < length model \<Longrightarrow> valid_layer (model ! i) \<Longrightarrow>
     is_layer_exist_source model source_depth i = source_in_layer source_depth (model ! i)"
  using source_in_layer_valid [of "model ! i" source_depth]
  by (auto simp: is_layer_exist_source_def py_getitem_def)

lemma loop_body_valid:
  assumes "list_all valid_layer model" "i < length model"
  shows "loop_body model incid_angle source_depth i st =
     (if source_in_layer source_depth (model ! i) = Inr True \<and> existing_counter st = 0 then
        trace_layer model i \<bar>layer_bottom (model ! i) - py_value source_depth\<bar>
          (st\<lparr>cur_angle := incid_angle, existing_counter := 1\<rparr>)
      else if existing_counter st = 0 then Inr (Continue st)
      else trace_layer model i \<bar>layer_bottom (model ! i) - layer_top (model ! i)\<bar> st)"
proof -
  from assms have valid: "valid_layer (model ! i)"
    by (simp add: list_all_length)
  then obtain t b v where layer: "model ! i = [PInt t, PInt b, v]"
    by (auto dest!: valid_layer_shape)
  obtain inside where inside: "source_in_layer source_depth (model ! i) = Inr inside"
    using source_in_layer_valid [OF valid] by blast
  have number: "is_number source_depth" if "inside"
    using source_in_layer_number [OF valid] inside that by simp
  have exist: "is_layer_exist_source model source_depth i = Inr inside"
    using is_layer_exist_source_eq [OF assms(2) valid] inside by simp
  have inside': "source_in_layer source_depth [PInt t, PInt b, v] = Inr inside"
    using inside layer by simp
  show ?thesis
    using assms(2) layer number
    by (cases inside)
      (simp_all add: loop_body_def exist inside' py_getitem_def get_thickness_def
        py_sub_def py_float_number layer_bottom_def layer_top_def)
qed

lemma segment_shape:
  "\<exists>x_length time. segment angle thickness layer = (x_length, thickness, angle, time)"
  by (simp add: segment_def Let_def)

lemma valid_speed_fields:
  assumes "list_all valid_layer model" "i < length model"
  shows "is_number (model ! i ! 2) \<and> 0 < py_value (model ! i ! 2)"
proof -
  from assms have "valid_layer (model ! i)" by (simp add: list_all_length)
  then show ?thesis by (auto dest!: valid_layer_shape)
qed

lemma tracing_phase:
  assumes valid: "list_all valid_layer model"
  shows "i < length model \<Longrightarrow> is_number (cur_angle st) \<Longrightarrow> existing_counter st \<noteq> 0 \<Longrightarrow>
    \<exists>st'. (case trace_layer model i thickness st of
             Inl e \<Rightarrow> Inl e
           | Inr (Continue st1) \<Rightarrow>
               for_loop (loop_body model incid_angle source_depth) [Suc i..<length model] st1
           | Inr (Break st1) \<Rightarrow> Inr st1) = Inr st' \<and>
      layers_values st' =
        layers_values st @ segment_offsets (ray_segments (cur_angle st) thickness (drop i model)) \<and>
      label_values st' =
        label_values st @ segment_labels (ray_segments (cur_angle st) thickness (drop i model))"
proof (induction "length model - i" arbitrary: i thickness st)
  case 0
  then show ?case by simp
next
  case (Suc k)
  obtain x_length time where
    seg: "segment (cur_angle st) thickness (model ! i) = (x_length, thickness, cur_angle st, time)"
    using segment_shape by blast
  define st1 where "st1 = st\<lparr>layers_values := layers_values st @ [(x_length, thickness)],
                             label_values := label_values st @ [(cur_angle st, time)]\<rparr>"
  have closed: "trace_layer model i thickness st =
     (if Suc i = length model then Inr (Continue st1)
      else (case count_angle (cur_angle st) (model ! i ! 2) (model ! Suc i ! 2) of
              Inl e \<Rightarrow> Inl e
            | Inr new_angle \<Rightarrow>
                if py_eq new_angle (PInt (- 2)) then Inr (Break (st1\<lparr>cur_angle := new_angle\<rparr>))
                else Inr (Continue (st1\<lparr>cur_angle := new_angle\<rparr>))))"
    unfolding st1_def using trace_layer_valid [OF valid Suc.prems(1,2), of thickness]
    by (simp add: seg Let_def)
  have drop_i: "drop i model = model ! i # drop (Suc i) model"
    using Suc.prems(1) by (simp add: Cons_nth_drop_Suc)
  show ?case
  proof (cases "Suc i = length model")
    case True
    then have "drop (Suc i) model = []" by simp
    with True closed drop_i show ?thesis
      by (simp add: seg st1_def segment_offsets_def segment_labels_def)
  next
    case False
    with Suc.prems(1) have next_lt: "Suc i < length model" by simp
    then have drop_next: "drop (Suc i) model = model ! Suc i # drop (Suc (Suc i)) model"
      by (simp add: Cons_nth_drop_Suc)
    have speeds: "is_number (model ! i ! 2)" "py_value (model ! i ! 2) \<noteq> 0"
      "is_number (model ! Suc i ! 2)"
      using valid_speed_fields [OF valid Suc.prems(1)] valid_speed_fields [OF valid next_lt]
      by auto
    obtain new_angle where
      refr: "count_angle (cur_angle st) (model ! i ! 2) (model ! Suc i ! 2) = Inr new_angle"
      using count_angle_number [OF Suc.prems(2) speeds] by blast
    have number: "is_number new_angle"
      using refr by (rule count_angle_result_number)
    show ?thesis
    proof (cases "py_eq new_angle (PInt (- 2))")
      case True
      with False closed refr drop_i drop_next show ?thesis
        by (simp add: seg st1_def segment_offsets_def segment_labels_def)
    next
      case not_stop: False
      define st2 where "st2 = st1\<lparr>cur_angle := new_angle\<rparr>"
      define th2 where "th2 = \<bar>layer_bottom (model ! Suc i) - layer_top (model ! Suc i)\<bar>"
      have st2: "cur_angle st2 = new_angle" "existing_counter st2 \<noteq> 0"
        "layers_values st2 = layers_values st @ [(x_length, thickness)]"
        "label_values st2 = label_values st @ [(cur_angle st, time)]"
        using Suc.prems(3) by (simp_all add: st2_def st1_def)
      have body: "loop_body model incid_angle source_depth (Suc i) st2 =
          trace_layer model (Suc i) th2 st2"
        using loop_body_valid [OF valid next_lt] st2(2) by (simp add: th2_def)
      have upt: "[Suc i..<length model] = Suc i # [Suc (Suc i)..<length model]"
        using next_lt by (simp add: upt_conv_Cons)
      have "k = length model - Suc i"
        using Suc.hyps(2) by simp
      from Suc.hyps(1) [OF this next_lt, of st2 th2] number st2(1,2)
      obtain st' where
        run: "(case trace_layer model (Suc i) th2 st2 of
                 Inl e \<Rightarrow> Inl e
               | Inr (Continue s) \<Rightarrow>
                   for_loop (loop_body model incid_angle source_depth) [Suc (Suc i)..<length model] s
               | Inr (Break s) \<Rightarrow> Inr s) = Inr st'"
        and lv: "layers_values st' = layers_values st2 @
              segment_offsets (ray_segments new_angle th2 (drop (Suc i) model))"
        and lab: "label_values st' = label_values st2 @
              segment_labels (ray_segments new_angle th2 (drop (Suc i) model))"
        by auto
      have segs: "ray_segments (cur_angle st) thickness (drop i model) =
          (x_length, thickness, cur_angle st, time) # ray_segments new_angle th2 (drop (Suc i) model)"
        unfolding drop_i drop_next using refr not_stop by (simp add: seg th2_def)
      have "(case trace_layer model i thickness st of
               Inl e \<Rightarrow> Inl e
             | Inr (Continue s) \<Rightarrow>
                 for_loop (loop_body model incid_angle source_depth) [Suc i..<length model] s
             | Inr (Break s) \<Rightarrow> Inr s) = Inr st'"
        using False closed refr not_stop run
        by (simp add: st2_def [symmetric] upt body)
      then show ?thesis
        using lv lab st2(3,4) segs by (simp add: segment_offsets_def segment_labels_def)
    qed
  qed
qed

lemma searching_phase:
  assumes valid: "list_all valid_layer model" and counter: "existing_counter st = 0"
    and bound: "s \<le> length model"
  shows "i \<le> s \<Longrightarrow> (\<forall>k. i \<le> k \<and> k < s \<longrightarrow> source_in_layer source_depth (model ! k) \<noteq> Inr True) \<Longrightarrow>
     for_loop (loop_body model incid_angle source_depth) [i..<length model] st =
     for_loop (loop_body model incid_angle source_depth) [s..<length model] st"
proof (induction "s - i" arbitrary: i)
  case 0
  then show ?case by simp
next
  case (Suc k)
  then have lt: "i < s" by simp
  with bound have i_lt: "i < length model" by simp
  have "source_in_layer source_depth (model ! i) \<noteq> Inr True"
    using Suc.prems(2) lt by simp
  then have body: "loop_body model incid_angle source_depth i st = Inr (Continue st)"
    using loop_body_valid [OF valid i_lt] counter by simp
  have upt: "[i..<length model] = i # [Suc i..<length model]"
    using i_lt by (simp add: upt_conv_Cons)
  have "for_loop (loop_body model incid_angle source_depth) [Suc i..<length model] st =
        for_loop (loop_body model incid_angle source_depth) [s..<length model] st"
    using Suc.hyps(2) Suc.prems(2) lt by (intro Suc.hyps(1)) auto
  then show ?case
    by (simp add: upt body)
qed

lemma source_index_le: "source_index model source_depth \<le> length model"
  by (simp add: source_index_def length_takeWhile_le)

lemma before_source_index:
  assumes "k < source_index model source_depth"
  shows "source_in_layer source_depth (model ! k) \<noteq> Inr True"
proof -
  let ?P = "\<lambda>layer. source_in_layer source_depth layer \<noteq> Inr True"
  from assms have k: "k < length (takeWhile ?P model)"
    by (simp add: source_index_def)
  then have "takeWhile ?P model ! k \<in> set (takeWhile ?P model)"
    by simp
  then have "?P (takeWhile ?P model ! k)"
    by (blast dest: set_takeWhileD)
  with k show ?thesis
    by (simp add: takeWhile_nth)
qed

lemma at_source_index:
  assumes "source_index model source_depth < length model"
  shows "source_in_layer source_depth (model ! source_index model source_depth) = Inr True"
  using nth_length_takeWhile [of "\<lambda>layer. source_in_layer source_depth layer \<noteq> Inr True" model] assms
  by (simp add: source_index_def)

lemma source_occurs_index:
  "list_all valid_layer model \<Longrightarrow>
     is_source_occur_in_seismic_model model source_depth =
       Inr (source_index model source_depth < length model)"
proof (induction model)
  case Nil
  then show ?case by (simp add: source_index_def)
next
  case (Cons layer rest)
  then obtain inside where "source_in_layer source_depth layer = Inr inside"
    using source_in_layer_valid [of layer source_depth] by auto
  with Cons show ?case
    by (cases inside) (simp_all add: source_index_def)
qed

lemma calculate_ray_tracing_values_valid:
  assumes "valid_input model incid_angle source_depth"
  defines "s \<equiv> source_index model source_depth"
  defines "segs \<equiv> ray_segments incid_angle
      \<bar>layer_bottom (model ! s) - py_value source_depth\<bar> (drop s model)"
  shows "calculate_ray_tracing_values model incid_angle source_depth =
     Inr (segment_offsets segs, segment_labels segs)"
proof -
  let ?body = "loop_body model incid_angle source_depth"
  from assms(1) have valid: "list_all valid_layer model" and number: "is_number incid_angle"
    and occurs: "is_source_occur_in_seismic_model model source_depth = Inr True"
    by (simp_all add: valid_input_def)
  from occurs have s_lt: "s < length model"
    by (simp add: source_occurs_index [OF valid] s_def)
  have inside: "source_in_layer source_depth (model ! s) = Inr True"
    using at_source_index s_lt by (simp add: s_def)
  have search: "for_loop ?body [0..<length model] initial_state =
      for_loop ?body [s..<length model] initial_state"
    using before_source_index [of _ model source_depth] s_lt
    by (intro searching_phase [OF valid]) (simp_all add: initial_state_def s_def)
  define st0 where "st0 = initial_state\<lparr>cur_angle := incid_angle, existing_counter := 1\<rparr>"
  define th where "th = \<bar>layer_bottom (model ! s) - py_value source_depth\<bar>"
  have body: "?body s initial_state = trace_layer model s th st0"
    using loop_body_valid [OF valid s_lt, of incid_angle source_depth initial_state] inside
    by (simp add: initial_state_def st0_def th_def)
  have upt: "[s..<length model] = s # [Suc s..<length model]"
    using s_lt by (simp add: upt_conv_Cons)
  have st0: "is_number (cur_angle st0)" "existing_counter st0 \<noteq> 0" "cur_angle st0 = incid_angle"
    "layers_values st0 = []" "label_values st0 = []"
    using number by (simp_all add: st0_def initial_state_def)
  from tracing_phase [OF valid s_lt st0(1,2), where thickness = th
      and incid_angle = incid_angle and source_depth = source_depth]
  obtain st' where
    run: "(case trace_layer model s th st0 of
             Inl e \<Rightarrow> Inl e
           | Inr (Continue st1) \<Rightarrow> for_loop ?body [Suc s..<length model] st1
           | Inr (Break st1) \<Rightarrow> Inr st1) = Inr st'"
    and lv: "layers_values st' = segment_offsets segs"
    and lab: "label_values st' = segment_labels segs"
    by (auto simp: st0 segs_def th_def)
  have "for_loop ?body [0..<length model] initial_state = Inr st'"
    using run by (simp add: search upt body)
  then show ?thesis
    by (simp add: calculate_ray_tracing_values_def lv lab)
qed

lemma ray_segments_length: "length (ray_segments angle thickness layers) \<le> length layers"
proof (induction layers arbitrary: angle thickness)
  case Nil
  then show ?case by simp
next
  case (Cons layer rest)
  show ?case
  proof (cases rest)
    case Nil
    then show ?thesis by simp
  next
    case (Cons next_layer deeper)
    then show ?thesis
      using Cons.IH by (auto split: sum.splits)
  qed
qed

lemma ray_segments_first:
  "ray_segments angle thickness (layer # rest) ! 0 = segment angle thickness layer"
  by simp

lemma ray_segments_nonempty: "layers \<noteq> [] \<Longrightarrow> ray_segments angle thickness layers \<noteq> []"
  by (cases layers) simp_all

lemma segment_labels_nth:
  "k < length segs \<Longrightarrow> segment_labels segs ! k = (fst (snd (snd (segs ! k))), snd (snd (snd (segs ! k))))"
  by (simp add: segment_labels_def split_beta)

lemma segment_offsets_nth:
  "k < length segs \<Longrightarrow> segment_offsets segs ! k = (fst (segs ! k), fst (snd (segs ! k)))"
  by (simp add: segment_offsets_def split_beta)

lemma length_segment_labels [simp]: "length (segment_labels segs) = length segs"
  by (simp add: segment_labels_def)

lemma length_segment_offsets [simp]: "length (segment_offsets segs) = length segs"
  by (simp add: segment_offsets_def)

text \<open>Every segment is the one the loop body computes for its layer from its entry angle.\<close>

lemma ray_segments_nth:
  "k < length (ray_segments angle thickness layers) \<Longrightarrow>
     ray_segments angle thickness layers ! k =
       segment (fst (snd (snd (ray_segments angle thickness layers ! k))))
         (if k = 0 then thickness else \<bar>layer_bottom (layers ! k) - layer_top (layers ! k)\<bar>)
         (layers ! k)"
proof (induction layers arbitrary: angle thickness k)
  case Nil
  then show ?case by simp
next
  case (Cons layer rest)
  show ?case
  proof (cases k)
    case 0
    then show ?thesis by (simp add: segment_def Let_def)
  next
    case (Suc j)
    with Cons.prems obtain next_layer deeper new_angle where
      rest: "rest = next_layer # deeper"
      and refr: "count_angle angle (layer ! 2) (next_layer ! 2) = Inr new_angle"
      and go: "\<not> py_eq new_angle (PInt (- 2))"
      by (auto split: list.splits sum.splits if_splits)
    let ?th = "\<bar>layer_bottom next_layer - layer_top next_layer\<bar>"
    have tail: "ray_segments angle thickness (layer # rest) =
        segment angle thickness layer # ray_segments new_angle ?th rest"
      using rest refr go by simp
    from Cons.prems Suc tail have j: "j < length (ray_segments new_angle ?th rest)"
      by simp
    have th_eq: "(if j = 0 then ?th else \<bar>layer_bottom (rest ! j) - layer_top (rest ! j)\<bar>) =
        \<bar>layer_bottom (rest ! j) - layer_top (rest ! j)\<bar>"
      using rest by (cases j) simp_all
    show ?thesis
      using Cons.IH [OF j] Suc
      by (simp add: tail th_eq del: ray_segments.simps)
  qed
qed

text \<open>Consecutive entry angles are linked by \<open>count_angle\<close>, whose result was not \<open>-2\<close>.\<close>

lemma ray_segments_chain:
  "Suc k < length (ray_segments angle thickness layers) \<Longrightarrow>
     count_angle (fst (snd (snd (ray_segments angle thickness layers ! k))))
         (layers ! k ! 2) (layers ! Suc k ! 2) =
       Inr (fst (snd (snd (ray_segments angle thickness layers ! Suc k)))) \<and>
     \<not> py_eq (fst (snd (snd (ray_segments angle thickness layers ! Suc k)))) (PInt (- 2))"
proof (induction layers arbitrary: angle thickness k)
  case Nil
  then show ?case by simp
next
  case (Cons layer rest)
  from Cons.prems obtain next_layer deeper new_angle where
    rest: "rest = next_layer # deeper"
    and refr: "count_angle angle (layer ! 2) (next_layer ! 2) = Inr new_angle"
    and go: "\<not> py_eq new_angle (PInt (- 2))"
    by (auto split: list.splits sum.splits if_splits)
  let ?th = "\<bar>layer_bottom next_layer - layer_top next_layer\<bar>"
  have tail: "ray_segments angle thickness (layer # rest) =
      segment angle thickness layer # ray_segments new_angle ?th rest"
    using rest refr go by simp
  have first: "ray_segments new_angle ?th rest ! 0 = segment new_angle ?th next_layer"
    unfolding rest by (rule ray_segments_first)
  show ?case
  proof (cases k)
    case 0
    have nxt: "rest ! 0 = next_layer"
      using rest by simp
    from 0 show ?thesis
      using refr go by (simp add: tail first nxt segment_def Let_def del: ray_segments.simps)
  next
    case (Suc j)
    with Cons.prems tail have "Suc j < length (ray_segments new_angle ?th rest)"
      by simp
    from Cons.IH [OF this] Suc show ?thesis
      by (simp add: tail del: ray_segments.simps)
  qed
qed

lemma ray_segments_numbers:
  "is_number angle \<Longrightarrow> k < length (ray_segments angle thickness layers) \<Longrightarrow>
     is_number (fst (snd (snd (ray_segments angle thickness layers ! k))))"
proof (induction k)
  case 0
  then show ?case
    by (cases layers) (simp_all add: segment_def Let_def)
next
  case (Suc k)
  then show ?case
    using ray_segments_chain [of k angle thickness layers] count_angle_result_number by blast
qed

text \<open>The recursion stops early only where \<open>count_angle\<close> returned a value equal to \<open>-2\<close>.\<close>

lemma ray_segments_stop:
  "list_all valid_layer layers \<Longrightarrow> is_number angle \<Longrightarrow>
   length (ray_segments angle thickness layers) < length layers \<Longrightarrow>
     \<exists>k new_angle. Suc k = length (ray_segments angle thickness layers) \<and>
       count_angle (fst (snd (snd (ray_segments angle thickness layers ! k))))
         (layers ! k ! 2) (layers ! Suc k ! 2) = Inr new_angle \<and>
       py_eq new_angle (PInt (- 2))"
proof (induction layers arbitrary: angle thickness)
  case Nil
  then show ?case by simp
next
  case (Cons layer rest)
  from Cons.prems(3) obtain next_layer deeper where rest: "rest = next_layer # deeper"
    by (cases rest) auto
  from Cons.prems(1) rest have speeds: "is_number (layer ! 2)" "py_value (layer ! 2) \<noteq> 0"
    "is_number (next_layer ! 2)"
    by (auto dest!: valid_layer_shape)
  obtain new_angle where refr: "count_angle angle (layer ! 2) (next_layer ! 2) = Inr new_angle"
    using count_angle_number [OF Cons.prems(2) speeds] by blast
  show ?case
  proof (cases "py_eq new_angle (PInt (- 2))")
    case True
    with refr rest show ?thesis
      by (simp add: segment_def Let_def)
  next
    case False
    let ?th = "\<bar>layer_bottom next_layer - layer_top next_layer\<bar>"
    have tail: "ray_segments angle thickness (layer # rest) =
        segment angle thickness layer # ray_segments new_angle ?th rest"
      using rest refr False by simp
    have "is_number new_angle"
      using refr by (rule count_angle_result_number)
    moreover have "list_all valid_layer rest"
      using Cons.prems(1) by simp
    moreover have "length (ray_segments new_angle ?th rest) < length rest"
      using Cons.prems(3) tail by simp
    ultimately obtain k r where
      len: "Suc k = length (ray_segments new_angle ?th rest)"
      and stop: "count_angle (fst (snd (snd (ray_segments new_angle ?th rest ! k))))
         (rest ! k ! 2) (rest ! Suc k ! 2) = Inr r" "py_eq r (PInt (- 2))"
      using Cons.IH by blast
    show ?thesis
      using stop len [symmetric]
      by (intro exI [of _ "Suc k"] exI [of _ r]) (simp add: tail del: ray_segments.simps)
  qed
qed

lemma py_float_Inr: "py_float v = Inr x \<Longrightarrow> is_number v \<and> x = py_value v"
  by (cases v) simp_all

lemma radians_degrees [simp]: "radians (degrees x) = x"
  by (simp add: radians_def degrees_def)

lemma degrees_radians [simp]: "degrees (radians x) = x"
  by (simp add: radians_def degrees_def)

text \<open>What a successful call of \<open>count_angle\<close> has computed.\<close>

lemma count_angle_Inr:
  assumes "count_angle angle lower upper = Inr new_angle"
  shows "is_number angle \<and> is_number lower \<and> is_number upper \<and> py_value lower \<noteq> 0 \<and>
    new_angle =
      (if \<bar>sin (radians (py_value angle)) * (py_value upper / py_value lower)\<bar> > 1 then PInt (- 2)
       else PFloat (degrees (arcsin (sin (radians (py_value angle)) * (py_value upper / py_value lower)))))"
proof -
  from assms obtain a where a: "py_float angle = Inr a"
    by (cases "py_float angle") (simp_all add: count_angle_def)
  from assms a obtain u where u: "py_float upper = Inr u"
    by (cases "py_float upper") (simp_all add: count_angle_def py_truediv_def)
  from assms a u obtain l where l: "py_float lower = Inr l"
    by (cases "py_float lower") (simp_all add: count_angle_def py_truediv_def)
  from assms a u l have "l \<noteq> 0"
    by (auto simp: count_angle_def py_truediv_def)
  with assms a u l show ?thesis
    using py_float_Inr [OF a] py_float_Inr [OF u] py_float_Inr [OF l]
    by (auto simp: count_angle_def py_truediv_def Let_def)
qed

lemma count_angle_snell:
  assumes "count_angle angle lower upper = Inr new_angle"
    and "\<bar>sin (radians (py_value angle)) * (py_value upper / py_value lower)\<bar> \<le> 1"
    and "py_value upper \<noteq> 0"
  shows "sin (radians (py_value angle)) / py_value lower =
    sin (radians (py_value new_angle)) / py_value upper"
proof -
  let ?sb = "sin (radians (py_value angle)) * (py_value upper / py_value lower)"
  from count_angle_Inr [OF assms(1)] assms(2)
  have "new_angle = PFloat (degrees (arcsin ?sb))"
    by simp
  moreover have "- 1 \<le> ?sb" "?sb \<le> 1"
    using assms(2) by linarith+
  then have "sin (arcsin ?sb) = ?sb"
    by (rule sin_arcsin)
  ultimately have "sin (radians (py_value new_angle)) = ?sb"
    by simp
  with assms(3) show ?thesis
    by simp
qed

lemma count_angle_critical:
  assumes "count_angle angle lower upper = Inr new_angle"
    and "\<bar>sin (radians (py_value angle)) * (py_value upper / py_value lower)\<bar> > 1"
  shows "py_eq new_angle (PInt (- 2))"
  using count_angle_Inr [OF assms(1)] assms(2) by simp

lemma count_angle_not_stopped:
  assumes "count_angle angle lower upper = Inr new_angle" and "\<not> py_eq new_angle (PInt (- 2))"
  shows "\<bar>sin (radians (py_value angle)) * (py_value upper / py_value lower)\<bar> \<le> 1"
  using count_angle_Inr [OF assms(1)] assms(2) by (auto split: if_splits)

text \<open>The coordinate lists grow by one entry per pair, each the sum of the pair's entry and
  the entry before.\<close>

lemma extend_coordinates_sums:
  "x \<noteq> [] \<Longrightarrow> y \<noteq> [] \<Longrightarrow> is_number (last x) \<Longrightarrow> is_number (last y) \<Longrightarrow>
   \<exists>xs ys. extend_coordinates offsets x y = Inr (x @ xs, y @ ys) \<and>
     length xs = length offsets \<and> length ys = length offsets \<and>
     (\<forall>k<length offsets.
        py_value ((x @ xs) ! (length x + k)) =
          fst (offsets ! k) + py_value ((x @ xs) ! (length x + k - 1)) \<and>
        py_value ((y @ ys) ! (length y + k)) =
          snd (offsets ! k) + py_value ((y @ ys) ! (length y + k - 1)))"
proof (induction offsets arbitrary: x y)
  case Nil
  then show ?case by simp
next
  case (Cons offset rest)
  obtain dx dy where offset: "offset = (dx, dy)"
    by (cases offset)
  define x' where "x' = x @ [PFloat (dx + py_value (last x))]"
  define y' where "y' = y @ [PFloat (dy + py_value (last y))]"
  have step: "extend_coordinates (offset # rest) x y = extend_coordinates rest x' y'"
    using Cons.prems by (simp add: offset py_float_number x'_def y'_def)
  have "x' \<noteq> []" "y' \<noteq> []" "is_number (last x')" "is_number (last y')"
    by (simp_all add: x'_def y'_def)
  from Cons.IH [OF this] obtain xs ys where
    run: "extend_coordinates rest x' y' = Inr (x' @ xs, y' @ ys)"
    and len: "length xs = length rest" "length ys = length rest"
    and sums: "\<And>k. k < length rest \<Longrightarrow>
        py_value ((x' @ xs) ! (length x' + k)) =
          fst (rest ! k) + py_value ((x' @ xs) ! (length x' + k - 1)) \<and>
        py_value ((y' @ ys) ! (length y' + k)) =
          snd (rest ! k) + py_value ((y' @ ys) ! (length y' + k - 1))"
    by blast
  let ?xs = "PFloat (dx + py_value (last x)) # xs"
  let ?ys = "PFloat (dy + py_value (last y)) # ys"
  have app: "x @ ?xs = x' @ xs" "y @ ?ys = y' @ ys"
    by (simp_all add: x'_def y'_def)
  have len': "length x' = Suc (length x)" "length y' = Suc (length y)"
    by (simp_all add: x'_def y'_def)
  have "py_value ((x @ ?xs) ! (length x + k)) =
          fst ((offset # rest) ! k) + py_value ((x @ ?xs) ! (length x + k - 1)) \<and>
        py_value ((y @ ?ys) ! (length y + k)) =
          snd ((offset # rest) ! k) + py_value ((y @ ?ys) ! (length y + k - 1))"
    if "k < length (offset # rest)" for k
  proof (cases k)
    case 0
    have "(x @ ?xs) ! (length x - 1) = last x" "(y @ ?ys) ! (length y - 1) = last y"
      using Cons.prems(1,2) by (simp_all add: nth_append last_conv_nth)
    with 0 show ?thesis
      by (simp add: offset)
  next
    case (Suc j)
    with that have "j < length rest" by simp
    from sums [OF this] Suc show ?thesis
      unfolding app by (simp add: len')
  qed
  then show ?case
    unfolding step run app [symmetric] using len
    by (intro exI [of _ ?xs] exI [of _ ?ys]) simp
qed

lemma create_coordinates_sums:
  assumes "is_number source_depth"
  shows "\<exists>x y. create_coordinates source_depth offsets = Inr (x, y) \<and>
     length x = Suc (length offsets) \<and> length y = Suc (length offsets) \<and>
     x ! 0 = PInt 0 \<and> y ! 0 = source_depth \<and>
     (\<forall>k<length offsets.
        py_value (x ! Suc k) = fst (offsets ! k) + py_value (x ! k) \<and>
        py_value (y ! Suc k) = snd (offsets ! k) + py_value (y ! k))"
proof -
  from extend_coordinates_sums [of "[PInt 0]" "[source_depth]" offsets] assms
  obtain xs ys where
    run: "extend_coordinates offsets [PInt 0] [source_depth] = Inr ([PInt 0] @ xs, [source_depth] @ ys)"
    and len: "length xs = length offsets" "length ys = length offsets"
    and sums: "\<forall>k<length offsets.
        py_value (([PInt 0] @ xs) ! (length [PInt 0] + k)) =
          fst (offsets ! k) + py_value (([PInt 0] @ xs) ! (length [PInt 0] + k - 1)) \<and>
        py_value (([source_depth] @ ys) ! (length [source_depth] + k)) =
          snd (offsets ! k) + py_value (([source_depth] @ ys) ! (length [source_depth] + k - 1))"
    by auto
  show ?thesis
    using run len sums
    by (intro exI [of _ "PInt 0 # xs"] exI [of _ "source_depth # ys"])
      (simp add: create_coordinates_def)
qed

section \<open>The trace of a valid input\<close>

lemma segment_thickness: "fst (snd (segment angle thickness layer)) = thickness"
  by (simp add: segment_def Let_def)

lemma segment_offset:
  "fst (segment angle thickness layer) = tan (radians (py_value angle)) * thickness"
  by (simp add: segment_def Let_def)

lemma valid_input_source:
  assumes "valid_input model incid_angle source_depth"
  shows "source_index model source_depth < length model" "is_number source_depth"
proof -
  from assms have valid: "list_all valid_layer model"
    and occurs: "is_source_occur_in_seismic_model model source_depth = Inr True"
    by (simp_all add: valid_input_def)
  from occurs show lt: "source_index model source_depth < length model"
    by (simp add: source_occurs_index [OF valid])
  from valid lt have "valid_layer (model ! source_index model source_depth)"
    by (simp add: list_all_length)
  then show "is_number source_depth"
    using at_source_index [OF lt] by (rule source_in_layer_number)
qed

lemma calculate_traced:
  "valid_input model incid_angle source_depth \<Longrightarrow>
     calculate_ray_tracing_values model incid_angle source_depth =
       Inr (segment_offsets (traced_segments model incid_angle source_depth),
            segment_labels (traced_segments model incid_angle source_depth))"
  by (simp add: calculate_ray_tracing_values_valid traced_segments_def)

lemma traced_length:
  assumes "valid_input model incid_angle source_depth"
  shows "0 < length (traced_segments model incid_angle source_depth)"
    "length (traced_segments model incid_angle source_depth) \<le>
       length model - source_index model source_depth"
proof -
  from valid_input_source(1) [OF assms]
  have "drop (source_index model source_depth) model \<noteq> []"
    by simp
  then show "0 < length (traced_segments model incid_angle source_depth)"
    unfolding traced_segments_def by (simp add: ray_segments_nonempty)
  show "length (traced_segments model incid_angle source_depth) \<le>
       length model - source_index model source_depth"
    unfolding traced_segments_def using ray_segments_length [of _ _ "drop (source_index model source_depth) model"]
    by simp
qed

lemma traced_first_angle:
  assumes "valid_input model incid_angle source_depth"
  shows "fst (segment_labels (traced_segments model incid_angle source_depth) ! 0) = incid_angle"
proof -
  from valid_input_source(1) [OF assms]
  obtain layer rest where "drop (source_index model source_depth) model = layer # rest"
    by (cases "drop (source_index model source_depth) model") simp_all
  then show ?thesis
    by (simp add: traced_segments_def segment_labels_def segment_def Let_def)
qed

lemma traced_chain:
  assumes "Suc k < length (traced_segments model incid_angle source_depth)"
  shows "count_angle (fst (segment_labels (traced_segments model incid_angle source_depth) ! k))
        (model ! (source_index model source_depth + k) ! 2)
        (model ! (source_index model source_depth + Suc k) ! 2) =
      Inr (fst (segment_labels (traced_segments model incid_angle source_depth) ! Suc k)) \<and>
    \<not> py_eq (fst (segment_labels (traced_segments model incid_angle source_depth) ! Suc k)) (PInt (- 2))"
proof -
  let ?s = "source_index model source_depth"
  let ?segs = "traced_segments model incid_angle source_depth"
  have "length ?segs \<le> length (drop ?s model)"
    unfolding traced_segments_def by (rule ray_segments_length)
  with assms have "?s + Suc k < length model"
    by simp
  then have nth: "drop ?s model ! k = model ! (?s + k)" "drop ?s model ! Suc k = model ! (?s + Suc k)"
    by simp_all
  from assms have "k < length ?segs" by simp
  with assms ray_segments_chain [of k incid_angle _ "drop ?s model"] nth show ?thesis
    unfolding traced_segments_def by (simp add: segment_labels_nth)
qed

lemma traced_thickness:
  assumes "k < length (traced_segments model incid_angle source_depth)"
  shows "snd (segment_offsets (traced_segments model incid_angle source_depth) ! k) =
    (if k = 0 then \<bar>layer_bottom (model ! source_index model source_depth) - py_value source_depth\<bar>
     else \<bar>layer_bottom (model ! (source_index model source_depth + k)) -
           layer_top (model ! (source_index model source_depth + k))\<bar>)"
proof -
  let ?s = "source_index model source_depth"
  let ?segs = "traced_segments model incid_angle source_depth"
  have "length ?segs \<le> length (drop ?s model)"
    unfolding traced_segments_def by (rule ray_segments_length)
  with assms have "?s + k < length model"
    by simp
  then have nth: "drop ?s model ! k = model ! (?s + k)"
    by simp
  from assms have "?segs ! k = segment (fst (snd (snd (?segs ! k))))
      (if k = 0 then \<bar>layer_bottom (model ! ?s) - py_value source_depth\<bar>
       else \<bar>layer_bottom (drop ?s model ! k) - layer_top (drop ?s model ! k)\<bar>) (drop ?s model ! k)"
    unfolding traced_segments_def by (rule ray_segments_nth)
  then have "fst (snd (?segs ! k)) = fst (snd (segment (fst (snd (snd (?segs ! k))))
      (if k = 0 then \<bar>layer_bottom (model ! ?s) - py_value source_depth\<bar>
       else \<bar>layer_bottom (drop ?s model ! k) - layer_top (drop ?s model ! k)\<bar>) (drop ?s model ! k)))"
    by (rule arg_cong [where f = "\<lambda>seg. fst (snd seg)"])
  then have "fst (snd (?segs ! k)) =
      (if k = 0 then \<bar>layer_bottom (model ! ?s) - py_value source_depth\<bar>
       else \<bar>layer_bottom (drop ?s model ! k) - layer_top (drop ?s model ! k)\<bar>)"
    by (simp only: segment_thickness)
  with assms nth show ?thesis
    by (simp add: segment_offsets_nth)
qed

lemma traced_offset:
  assumes "k < length (traced_segments model incid_angle source_depth)"
  shows "fst (segment_offsets (traced_segments model incid_angle source_depth) ! k) =
    tan (radians (py_value (fst (segment_labels (traced_segments model incid_angle source_depth) ! k)))) *
    snd (segment_offsets (traced_segments model incid_angle source_depth) ! k)"
proof -
  let ?segs = "traced_segments model incid_angle source_depth"
  from assms obtain th layer where "?segs ! k = segment (fst (snd (snd (?segs ! k)))) th layer"
    unfolding traced_segments_def using ray_segments_nth by blast
  then have "fst (?segs ! k) = fst (segment (fst (snd (snd (?segs ! k)))) th layer)"
    "fst (snd (?segs ! k)) = fst (snd (segment (fst (snd (snd (?segs ! k)))) th layer))"
    by (rule arg_cong [where f = fst], rule arg_cong [where f = "\<lambda>seg. fst (snd seg)"])
  then have "fst (?segs ! k) = tan (radians (py_value (fst (snd (snd (?segs ! k)))))) * fst (snd (?segs ! k))"
    by (simp only: segment_thickness segment_offset)
  with assms show ?thesis
    by (simp add: segment_offsets_nth segment_labels_nth)
qed

lemma trace_ray_valid:
  assumes "valid_input model incid_angle source_depth"
  shows "\<exists>res. trace_ray model incid_angle source_depth = Inr res \<and>
    labels res = segment_labels (traced_segments model incid_angle source_depth) \<and>
    length (coords_x res) = Suc (length (traced_segments model incid_angle source_depth)) \<and>
    length (coords_y res) = Suc (length (traced_segments model incid_angle source_depth)) \<and>
    coords_x res ! 0 = PInt 0 \<and> coords_y res ! 0 = source_depth \<and>
    (\<forall>k<length (traced_segments model incid_angle source_depth).
       py_value (coords_x res ! Suc k) =
         fst (segment_offsets (traced_segments model incid_angle source_depth) ! k) +
         py_value (coords_x res ! k) \<and>
       py_value (coords_y res ! Suc k) =
         snd (segment_offsets (traced_segments model incid_angle source_depth) ! k) +
         py_value (coords_y res ! k))"
proof -
  let ?segs = "traced_segments model incid_angle source_depth"
  from create_coordinates_sums [OF valid_input_source(2) [OF assms], of "segment_offsets ?segs"]
  obtain x y where
    coords: "create_coordinates source_depth (segment_offsets ?segs) = Inr (x, y)"
    and rest: "length x = Suc (length ?segs)" "length y = Suc (length ?segs)"
      "x ! 0 = PInt 0" "y ! 0 = source_depth"
      "\<forall>k<length ?segs.
        py_value (x ! Suc k) = fst (segment_offsets ?segs ! k) + py_value (x ! k) \<and>
        py_value (y ! Suc k) = snd (segment_offsets ?segs ! k) + py_value (y ! k)"
    by auto
  have "trace_ray model incid_angle source_depth =
      Inr \<lparr>coords_x = x, coords_y = y, labels = segment_labels ?segs\<rparr>"
    by (simp add: trace_ray_def calculate_traced [OF assms] coords)
  with rest show ?thesis
    by simp
qed

lemma traced_index_bound:
  assumes "k < length (traced_segments model incid_angle source_depth)"
  shows "source_index model source_depth + k < length model"
proof -
  have "length (traced_segments model incid_angle source_depth) \<le>
      length (drop (source_index model source_depth) model)"
    unfolding traced_segments_def by (rule ray_segments_length)
  with assms show ?thesis by simp
qed

text \<open>A boundary at which \<open>count_angle\<close> answers a value equal to \<open>-2\<close> ends the trace.\<close>

lemma traced_stops_at:
  assumes "j < length (traced_segments model incid_angle source_depth)"
    and "count_angle (fst (segment_labels (traced_segments model incid_angle source_depth) ! j))
        (model ! (source_index model source_depth + j) ! 2)
        (model ! (source_index model source_depth + Suc j) ! 2) = Inr new_angle"
    and "py_eq new_angle (PInt (- 2))"
  shows "length (traced_segments model incid_angle source_depth) = Suc j"
proof (rule ccontr)
  assume "length (traced_segments model incid_angle source_depth) \<noteq> Suc j"
  with assms(1) have "Suc j < length (traced_segments model incid_angle source_depth)"
    by simp
  from traced_chain [OF this] assms(2,3) show False
    by simp
qed

lemma traced_count_angle:
  assumes "valid_input model incid_angle source_depth"
    and "j < length (traced_segments model incid_angle source_depth)"
    and "source_index model source_depth + Suc j < length model"
  shows "\<exists>new_angle.
    count_angle (fst (segment_labels (traced_segments model incid_angle source_depth) ! j))
        (model ! (source_index model source_depth + j) ! 2)
        (model ! (source_index model source_depth + Suc j) ! 2) = Inr new_angle"
proof -
  from assms(1) have valid: "list_all valid_layer model" and number: "is_number incid_angle"
    by (simp_all add: valid_input_def)
  have "is_number (fst (segment_labels (traced_segments model incid_angle source_depth) ! j))"
    using ray_segments_numbers [OF number, of j] assms(2)
    by (simp add: traced_segments_def segment_labels_nth)
  moreover from assms(3) have "source_index model source_depth + j < length model"
    by simp
  ultimately show ?thesis
    using count_angle_number valid_speed_fields [OF valid] assms(3)
    by (metis less_numeral_extra(3))
qed

section \<open>Vertical incidence\<close>




section \<open>Division by zero\<close>

lemma and_then_error:
  "and_then r f = Inl e \<Longrightarrow> r = Inl e \<or> (\<exists>v. r = Inr v \<and> f v = Inl e)"
  by (cases r) simp_all

lemma py_float_error: "py_float v \<noteq> Inl ZeroDivisionError"
  by (cases v) simp_all

lemma py_getitem_error: "py_getitem xs i \<noteq> Inl ZeroDivisionError"
  by (simp add: py_getitem_def)

lemma py_in_range_error: "py_in_range x a b \<noteq> Inl ZeroDivisionError"
  by (cases "(x, a, b)" rule: py_in_range.cases) simp_all

lemma source_in_layer_error: "source_in_layer source_depth layer \<noteq> Inl ZeroDivisionError"
  unfolding source_in_layer_def
  by (auto dest!: and_then_error simp: py_getitem_error py_in_range_error)

lemma is_layer_exist_source_error:
  "is_layer_exist_source model source_depth i \<noteq> Inl ZeroDivisionError"
  unfolding is_layer_exist_source_def
  by (auto dest!: and_then_error simp: py_getitem_error source_in_layer_error split: if_splits)

lemma get_thickness_error: "get_thickness a b \<noteq> Inl ZeroDivisionError"
  unfolding get_thickness_def py_sub_def
  by (auto dest!: and_then_error simp: py_float_error)

lemma find_x_length_error: "find_x_length angle thickness \<noteq> Inl ZeroDivisionError"
  unfolding find_x_length_def
  by (auto dest!: and_then_error simp: py_float_error)

lemma py_truediv_error:
  "py_truediv a b = Inl ZeroDivisionError \<Longrightarrow> py_float b = Inr 0"
  unfolding py_truediv_def
  by (auto dest!: and_then_error simp: py_float_error split: if_splits)

lemma count_angle_error:
  "count_angle angle lower upper = Inl ZeroDivisionError \<Longrightarrow> py_float lower = Inr 0"
  unfolding count_angle_def
  by (auto dest!: and_then_error simp: py_float_error Let_def py_truediv_error split: if_splits)

lemma trace_layer_error:
  assumes "trace_layer model i thickness st = Inl ZeroDivisionError"
  shows "\<exists>layer speed. py_getitem model i = Inr layer \<and> py_getitem layer 2 = Inr speed \<and>
    py_float speed = Inr 0"
  using assms unfolding trace_layer_def Let_def and_then_def count_ray_duration_def
  by (auto split: sum.splits if_splits
      simp: find_x_length_error py_getitem_error
      dest: py_truediv_error count_angle_error)

lemma loop_body_error:
  assumes "loop_body model incid_angle source_depth i st = Inl ZeroDivisionError"
  shows "\<exists>layer speed. py_getitem model i = Inr layer \<and> py_getitem layer 2 = Inr speed \<and>
    py_float speed = Inr 0"
  using assms unfolding loop_body_def
  by (auto dest!: and_then_error trace_layer_error
      simp: is_layer_exist_source_error py_getitem_error get_thickness_error split: if_splits)

lemma for_loop_error:
  "for_loop body indices st = Inl e \<Longrightarrow> \<exists>i \<in> set indices. \<exists>st'. body i st' = Inl e"
proof (induction indices arbitrary: st)
  case Nil
  then show ?case by simp
next
  case (Cons i rest)
  show ?case
  proof (cases "body i st")
    case (Inl e')
    with Cons.prems show ?thesis by auto
  next
    case (Inr step)
    with Cons show ?thesis
      by (cases step) auto
  qed
qed

lemma speed_check_positive:
  "is_speed_data_correct model = Inr True \<Longrightarrow> layer \<in> set model \<Longrightarrow>
     py_getitem layer 2 = Inr speed \<Longrightarrow> py_float speed \<noteq> Inr 0"
proof (induction model)
  case Nil
  then show ?case by simp
next
  case (Cons first rest)
  from Cons.prems(1) obtain v where v: "py_getitem first 2 = Inr v"
    by (cases "py_getitem first 2") simp_all
  from Cons.prems(1) v obtain positive where p: "py_gt_zero v = Inr positive"
    by (cases "py_gt_zero v") simp_all
  from Cons.prems(1) v p have positive: "positive" and rest: "is_speed_data_correct rest = Inr True"
    by (simp_all split: if_splits)
  show ?case
  proof (cases "layer = first")
    case True
    with Cons.prems(3) v have "speed = v" by simp
    with p positive show ?thesis
      by (cases v) (simp_all add: py_gt_zero_def)
  next
    case False
    with Cons.prems(2) have "layer \<in> set rest" by simp
    from Cons.IH [OF rest this Cons.prems(3)] show ?thesis .
  qed
qed

lemma extend_coordinates_error: "extend_coordinates offsets x y \<noteq> Inl ZeroDivisionError"
proof (induction offsets arbitrary: x y)
  case Nil
  then show ?case by simp
next
  case (Cons offset rest)
  obtain dx dy where "offset = (dx, dy)" by (cases offset)
  with Cons show ?case
    by (auto dest!: and_then_error simp: py_float_error)
qed

lemma trace_ray_no_zero_division:
  assumes "is_speed_data_correct model = Inr True"
  shows "trace_ray model incid_angle source_depth \<noteq> Inl ZeroDivisionError"
proof
  assume "trace_ray model incid_angle source_depth = Inl ZeroDivisionError"
  then have "calculate_ray_tracing_values model incid_angle source_depth = Inl ZeroDivisionError"
    unfolding trace_ray_def
    by (auto dest!: and_then_error simp: create_coordinates_def extend_coordinates_error)
  then have "for_loop (loop_body model incid_angle source_depth) [0..<length model] initial_state =
      Inl ZeroDivisionError"
    unfolding calculate_ray_tracing_values_def by (auto dest!: and_then_error)
  from for_loop_error [OF this] obtain i st' where "i < length model"
    and "loop_body model incid_angle source_depth i st' = Inl ZeroDivisionError"
    by auto
  from loop_body_error [OF this(2)] obtain layer speed where
    "py_getitem model i = Inr layer" "py_getitem layer 2 = Inr speed" "py_float speed = Inr 0"
    by blast
  moreover from this(1) have "layer \<in> set model"
    by (auto simp: py_getitem_def split: if_splits)
  ultimately show False
    using speed_check_positive [OF assms] by blast
qed

section \<open>The trace with the rounding left open\<close>

lemma count_angle_with_number:
  assumes "is_number angle" "is_number lower" "py_value lower \<noteq> 0" "is_number upper"
  shows "\<exists>new_angle. count_angle_with sin_beta_of asin_degrees angle lower upper = Inr new_angle"
  using assms by (simp add: count_angle_with_def py_float_number Let_def)

lemma count_angle_with_result_number:
  "count_angle_with sin_beta_of asin_degrees angle lower upper = Inr new_angle \<Longrightarrow>
     is_number new_angle"
  by (auto simp: count_angle_with_def and_then_def Let_def split: sum.splits if_splits)

lemma trace_layer_with_valid:
  assumes "list_all valid_layer model" "i < length model" "is_number (cur_angle st)"
  shows "trace_layer_with sin_beta_of asin_degrees model i thickness st =
     (case segment (cur_angle st) thickness (model ! i) of (x_length, th, angle, time) \<Rightarrow>
        let st1 = st\<lparr>layers_values := layers_values st @ [(x_length, thickness)],
                     label_values := label_values st @ [(cur_angle st, time)]\<rparr> in
        if Suc i = length model then Inr (Continue st1)
        else (case count_angle_with sin_beta_of asin_degrees (cur_angle st) (model ! i ! 2) (model ! Suc i ! 2) of
                Inl e \<Rightarrow> Inl e
              | Inr new_angle \<Rightarrow>
                  if py_eq new_angle (PInt (- 2)) then Inr (Break (st1\<lparr>cur_angle := new_angle\<rparr>))
                  else Inr (Continue (st1\<lparr>cur_angle := new_angle\<rparr>))))"
proof -
  from assms(1,2) have "valid_layer (model ! i)"
    by (simp add: list_all_length)
  then obtain t b v where layer: "model ! i = [PInt t, PInt b, v]" "is_number v" "0 < py_value v"
    by (auto dest!: valid_layer_shape)
  show ?thesis
  proof (cases "Suc i = length model")
    case True
    then show ?thesis
      using assms(2,3) layer
      by (simp add: trace_layer_with_def segment_def find_x_length_def py_float_number py_getitem_def
          count_ray_duration_def py_truediv_def layer_velocity_def Let_def)
  next
    case False
    with assms(2) have "Suc i < length model" by simp
    with assms(1) have "valid_layer (model ! Suc i)" by (simp add: list_all_length)
    then obtain t' b' v' where next_layer: "model ! Suc i = [PInt t', PInt b', v']"
      by (auto dest!: valid_layer_shape)
    from False have not_last: "int i \<noteq> int (length model) - 1" by linarith
    show ?thesis
      using assms(2,3) layer next_layer False not_last \<open>Suc i < length model\<close>
      by (simp add: trace_layer_with_def segment_def find_x_length_def py_float_number py_getitem_def
          count_ray_duration_def py_truediv_def layer_velocity_def Let_def and_then_def
          split: sum.splits)
  qed
qed

lemma loop_body_with_valid:
  assumes "list_all valid_layer model" "i < length model"
  shows "loop_body_with sin_beta_of asin_degrees model incid_angle source_depth i st =
     (if source_in_layer source_depth (model ! i) = Inr True \<and> existing_counter st = 0 then
        trace_layer_with sin_beta_of asin_degrees model i \<bar>layer_bottom (model ! i) - py_value source_depth\<bar>
          (st\<lparr>cur_angle := incid_angle, existing_counter := 1\<rparr>)
      else if existing_counter st = 0 then Inr (Continue st)
      else trace_layer_with sin_beta_of asin_degrees model i \<bar>layer_bottom (model ! i) - layer_top (model ! i)\<bar> st)"
proof -
  from assms have valid: "valid_layer (model ! i)"
    by (simp add: list_all_length)
  then obtain t b v where layer: "model ! i = [PInt t, PInt b, v]"
    by (auto dest!: valid_layer_shape)
  obtain inside where inside: "source_in_layer source_depth (model ! i) = Inr inside"
    using source_in_layer_valid [OF valid] by blast
  have number: "is_number source_depth" if "inside"
    using source_in_layer_number [OF valid] inside that by simp
  have exist: "is_layer_exist_source model source_depth i = Inr inside"
    using is_layer_exist_source_eq [OF assms(2) valid] inside by simp
  have inside': "source_in_layer source_depth [PInt t, PInt b, v] = Inr inside"
    using inside layer by simp
  show ?thesis
    using assms(2) layer number
    by (cases inside)
      (simp_all add: loop_body_with_def exist inside' py_getitem_def get_thickness_def
        py_sub_def py_float_number layer_bottom_def layer_top_def)
qed

lemma tracing_phase_with:
  assumes valid: "list_all valid_layer model"
  shows "i < length model \<Longrightarrow> is_number (cur_angle st) \<Longrightarrow> existing_counter st \<noteq> 0 \<Longrightarrow>
    \<exists>st'. (case trace_layer_with sin_beta_of asin_degrees model i thickness st of
             Inl e \<Rightarrow> Inl e
           | Inr (Continue st1) \<Rightarrow>
               for_loop (loop_body_with sin_beta_of asin_degrees model incid_angle source_depth) [Suc i..<length model] st1
           | Inr (Break st1) \<Rightarrow> Inr st1) = Inr st' \<and>
      layers_values st' =
        layers_values st @ segment_offsets (ray_segments_with sin_beta_of asin_degrees (cur_angle st) thickness (drop i model)) \<and>
      label_values st' =
        label_values st @ segment_labels (ray_segments_with sin_beta_of asin_degrees (cur_angle st) thickness (drop i model))"
proof (induction "length model - i" arbitrary: i thickness st)
  case 0
  then show ?case by simp
next
  case (Suc k)
  obtain x_length time where
    seg: "segment (cur_angle st) thickness (model ! i) = (x_length, thickness, cur_angle st, time)"
    using segment_shape by blast
  define st1 where "st1 = st\<lparr>layers_values := layers_values st @ [(x_length, thickness)],
                             label_values := label_values st @ [(cur_angle st, time)]\<rparr>"
  have closed: "trace_layer_with sin_beta_of asin_degrees model i thickness st =
     (if Suc i = length model then Inr (Continue st1)
      else (case count_angle_with sin_beta_of asin_degrees (cur_angle st) (model ! i ! 2) (model ! Suc i ! 2) of
              Inl e \<Rightarrow> Inl e
            | Inr new_angle \<Rightarrow>
                if py_eq new_angle (PInt (- 2)) then Inr (Break (st1\<lparr>cur_angle := new_angle\<rparr>))
                else Inr (Continue (st1\<lparr>cur_angle := new_angle\<rparr>))))"
    unfolding st1_def using trace_layer_with_valid [OF valid Suc.prems(1,2), where thickness = thickness
        and sin_beta_of = sin_beta_of and asin_degrees = asin_degrees]
    by (simp add: seg Let_def)
  have drop_i: "drop i model = model ! i # drop (Suc i) model"
    using Suc.prems(1) by (simp add: Cons_nth_drop_Suc)
  show ?case
  proof (cases "Suc i = length model")
    case True
    then have "drop (Suc i) model = []" by simp
    with True closed drop_i show ?thesis
      by (simp add: seg st1_def segment_offsets_def segment_labels_def)
  next
    case False
    with Suc.prems(1) have next_lt: "Suc i < length model" by simp
    then have drop_next: "drop (Suc i) model = model ! Suc i # drop (Suc (Suc i)) model"
      by (simp add: Cons_nth_drop_Suc)
    have speeds: "is_number (model ! i ! 2)" "py_value (model ! i ! 2) \<noteq> 0"
      "is_number (model ! Suc i ! 2)"
      using valid_speed_fields [OF valid Suc.prems(1)] valid_speed_fields [OF valid next_lt]
      by auto
    obtain new_angle where
      refr: "count_angle_with sin_beta_of asin_degrees (cur_angle st) (model ! i ! 2) (model ! Suc i ! 2) = Inr new_angle"
      using count_angle_with_number [OF Suc.prems(2) speeds] by blast
    have number: "is_number new_angle"
      using refr by (rule count_angle_with_result_number)
    show ?thesis
    proof (cases "py_eq new_angle (PInt (- 2))")
      case True
      with False closed refr drop_i drop_next show ?thesis
        by (simp add: seg st1_def segment_offsets_def segment_labels_def)
    next
      case not_stop: False
      define st2 where "st2 = st1\<lparr>cur_angle := new_angle\<rparr>"
      define th2 where "th2 = \<bar>layer_bottom (model ! Suc i) - layer_top (model ! Suc i)\<bar>"
      have st2: "cur_angle st2 = new_angle" "existing_counter st2 \<noteq> 0"
        "layers_values st2 = layers_values st @ [(x_length, thickness)]"
        "label_values st2 = label_values st @ [(cur_angle st, time)]"
        using Suc.prems(3) by (simp_all add: st2_def st1_def)
      have body: "loop_body_with sin_beta_of asin_degrees model incid_angle source_depth (Suc i) st2 =
          trace_layer_with sin_beta_of asin_degrees model (Suc i) th2 st2"
        using loop_body_with_valid [OF valid next_lt] st2(2) by (simp add: th2_def)
      have upt: "[Suc i..<length model] = Suc i # [Suc (Suc i)..<length model]"
        using next_lt by (simp add: upt_conv_Cons)
      have "k = length model - Suc i"
        using Suc.hyps(2) by simp
      from Suc.hyps(1) [OF this next_lt, of st2 th2] number st2(1,2)
      obtain st' where
        run: "(case trace_layer_with sin_beta_of asin_degrees model (Suc i) th2 st2 of
                 Inl e \<Rightarrow> Inl e
               | Inr (Continue s) \<Rightarrow>
                   for_loop (loop_body_with sin_beta_of asin_degrees model incid_angle source_depth) [Suc (Suc i)..<length model] s
               | Inr (Break s) \<Rightarrow> Inr s) = Inr st'"
        and lv: "layers_values st' = layers_values st2 @
              segment_offsets (ray_segments_with sin_beta_of asin_degrees new_angle th2 (drop (Suc i) model))"
        and lab: "label_values st' = label_values st2 @
              segment_labels (ray_segments_with sin_beta_of asin_degrees new_angle th2 (drop (Suc i) model))"
        by auto
      have segs: "ray_segments_with sin_beta_of asin_degrees (cur_angle st) thickness (drop i model) =
          (x_length, thickness, cur_angle st, time) # ray_segments_with sin_beta_of asin_degrees new_angle th2 (drop (Suc i) model)"
        unfolding drop_i drop_next using refr not_stop by (simp add: seg th2_def)
      have "(case trace_layer_with sin_beta_of asin_degrees model i thickness st of
               Inl e \<Rightarrow> Inl e
             | Inr (Continue s) \<Rightarrow>
                 for_loop (loop_body_with sin_beta_of asin_degrees model incid_angle source_depth) [Suc i..<length model] s
             | Inr (Break s) \<Rightarrow> Inr s) = Inr st'"
        using False closed refr not_stop run
        by (simp add: st2_def [symmetric] upt body)
      then show ?thesis
        using lv lab st2(3,4) segs by (simp add: segment_offsets_def segment_labels_def)
    qed
  qed
qed

lemma searching_phase_with:
  assumes valid: "list_all valid_layer model" and counter: "existing_counter st = 0"
    and bound: "s \<le> length model"
  shows "i \<le> s \<Longrightarrow> (\<forall>k. i \<le> k \<and> k < s \<longrightarrow> source_in_layer source_depth (model ! k) \<noteq> Inr True) \<Longrightarrow>
     for_loop (loop_body_with sin_beta_of asin_degrees model incid_angle source_depth) [i..<length model] st =
     for_loop (loop_body_with sin_beta_of asin_degrees model incid_angle source_depth) [s..<length model] st"
proof (induction "s - i" arbitrary: i)
  case 0
  then show ?case by simp
next
  case (Suc k)
  then have lt: "i < s" by simp
  with bound have i_lt: "i < length model" by simp
  have "source_in_layer source_depth (model ! i) \<noteq> Inr True"
    using Suc.prems(2) lt by simp
  then have body: "loop_body_with sin_beta_of asin_degrees model incid_angle source_depth i st = Inr (Continue st)"
    using loop_body_with_valid [OF valid i_lt] counter by simp
  have upt: "[i..<length model] = i # [Suc i..<length model]"
    using i_lt by (simp add: upt_conv_Cons)
  have "for_loop (loop_body_with sin_beta_of asin_degrees model incid_angle source_depth) [Suc i..<length model] st =
        for_loop (loop_body_with sin_beta_of asin_degrees model incid_angle source_depth) [s..<length model] st"
    using Suc.hyps(2) Suc.prems(2) lt by (intro Suc.hyps(1)) auto
  then show ?case
    by (simp add: upt body)
qed

lemma calculate_ray_tracing_values_with_valid:
  fixes sin_beta_of :: "real \<Rightarrow> real \<Rightarrow> real \<Rightarrow> real" and asin_degrees :: "real \<Rightarrow> real"
  assumes "valid_input model incid_angle source_depth"
  defines "s \<equiv> source_index model source_depth"
  defines "segs \<equiv> ray_segments_with sin_beta_of asin_degrees incid_angle
      \<bar>layer_bottom (model ! s) - py_value source_depth\<bar> (drop s model)"
  shows "calculate_ray_tracing_values_with sin_beta_of asin_degrees model incid_angle source_depth =
     Inr (segment_offsets segs, segment_labels segs)"
proof -
  let ?body = "loop_body_with sin_beta_of asin_degrees model incid_angle source_depth"
  from assms(1) have valid: "list_all valid_layer model" and number: "is_number incid_angle"
    and occurs: "is_source_occur_in_seismic_model model source_depth = Inr True"
    by (simp_all add: valid_input_def)
  from occurs have s_lt: "s < length model"
    by (simp add: source_occurs_index [OF valid] s_def)
  have inside: "source_in_layer source_depth (model ! s) = Inr True"
    using at_source_index s_lt by (simp add: s_def)
  have search: "for_loop ?body [0..<length model] initial_state =
      for_loop ?body [s..<length model] initial_state"
    using before_source_index [of _ model source_depth] s_lt
    by (intro searching_phase_with [OF valid]) (simp_all add: initial_state_def s_def)
  define st0 where "st0 = initial_state\<lparr>cur_angle := incid_angle, existing_counter := 1\<rparr>"
  define th where "th = \<bar>layer_bottom (model ! s) - py_value source_depth\<bar>"
  have body: "?body s initial_state = trace_layer_with sin_beta_of asin_degrees model s th st0"
    using loop_body_with_valid [OF valid s_lt, where incid_angle = incid_angle
        and source_depth = source_depth and st = initial_state
        and sin_beta_of = sin_beta_of and asin_degrees = asin_degrees] inside
    by (simp add: initial_state_def st0_def th_def)
  have upt: "[s..<length model] = s # [Suc s..<length model]"
    using s_lt by (simp add: upt_conv_Cons)
  have st0: "is_number (cur_angle st0)" "existing_counter st0 \<noteq> 0" "cur_angle st0 = incid_angle"
    "layers_values st0 = []" "label_values st0 = []"
    using number by (simp_all add: st0_def initial_state_def)
  from tracing_phase_with [OF valid s_lt st0(1,2), where thickness = th
      and sin_beta_of = sin_beta_of and asin_degrees = asin_degrees
      and incid_angle = incid_angle and source_depth = source_depth]
  obtain st' where
    run: "(case trace_layer_with sin_beta_of asin_degrees model s th st0 of
             Inl e \<Rightarrow> Inl e
           | Inr (Continue st1) \<Rightarrow> for_loop ?body [Suc s..<length model] st1
           | Inr (Break st1) \<Rightarrow> Inr st1) = Inr st'"
    and lv: "layers_values st' = segment_offsets segs"
    and lab: "label_values st' = segment_labels segs"
    by (auto simp: st0 segs_def th_def)
  have "for_loop ?body [0..<length model] initial_state = Inr st'"
    using run by (simp add: search upt body)
  then show ?thesis
    by (simp add: calculate_ray_tracing_values_with_def lv lab)
qed

lemma ray_segments_with_length: "length (ray_segments_with sin_beta_of asin_degrees angle thickness layers) \<le> length layers"
proof (induction layers arbitrary: angle thickness)
  case Nil
  then show ?case by simp
next
  case (Cons layer rest)
  show ?case
  proof (cases rest)
    case Nil
    then show ?thesis by simp
  next
    case (Cons next_layer deeper)
    then show ?thesis
      using Cons.IH by (auto split: sum.splits)
  qed
qed

lemma ray_segments_with_first:
  "ray_segments_with sin_beta_of asin_degrees angle thickness (layer # rest) ! 0 = segment angle thickness layer"
  by simp

lemma ray_segments_with_nonempty: "layers \<noteq> [] \<Longrightarrow> ray_segments_with sin_beta_of asin_degrees angle thickness layers \<noteq> []"
  by (cases layers) simp_all

lemma ray_segments_with_chain:
  "Suc k < length (ray_segments_with sin_beta_of asin_degrees angle thickness layers) \<Longrightarrow>
     count_angle_with sin_beta_of asin_degrees (fst (snd (snd (ray_segments_with sin_beta_of asin_degrees angle thickness layers ! k))))
         (layers ! k ! 2) (layers ! Suc k ! 2) =
       Inr (fst (snd (snd (ray_segments_with sin_beta_of asin_degrees angle thickness layers ! Suc k)))) \<and>
     \<not> py_eq (fst (snd (snd (ray_segments_with sin_beta_of asin_degrees angle thickness layers ! Suc k)))) (PInt (- 2))"
proof (induction layers arbitrary: angle thickness k)
  case Nil
  then show ?case by simp
next
  case (Cons layer rest)
  from Cons.prems obtain next_layer deeper new_angle where
    rest: "rest = next_layer # deeper"
    and refr: "count_angle_with sin_beta_of asin_degrees angle (layer ! 2) (next_layer ! 2) = Inr new_angle"
    and go: "\<not> py_eq new_angle (PInt (- 2))"
    by (auto split: list.splits sum.splits if_splits)
  let ?th = "\<bar>layer_bottom next_layer - layer_top next_layer\<bar>"
  have tail: "ray_segments_with sin_beta_of asin_degrees angle thickness (layer # rest) =
      segment angle thickness layer # ray_segments_with sin_beta_of asin_degrees new_angle ?th rest"
    using rest refr go by simp
  have first: "ray_segments_with sin_beta_of asin_degrees new_angle ?th rest ! 0 = segment new_angle ?th next_layer"
    unfolding rest by (rule ray_segments_with_first)
  show ?case
  proof (cases k)
    case 0
    have nxt: "rest ! 0 = next_layer"
      using rest by simp
    from 0 show ?thesis
      using refr go by (simp add: tail first nxt segment_def Let_def del: ray_segments_with.simps)
  next
    case (Suc j)
    with Cons.prems tail have "Suc j < length (ray_segments_with sin_beta_of asin_degrees new_angle ?th rest)"
      by simp
    from Cons.IH [OF this] Suc show ?thesis
      by (simp add: tail del: ray_segments_with.simps)
  qed
qed

lemma calculate_traced_with:
  "valid_input model incid_angle source_depth \<Longrightarrow>
     calculate_ray_tracing_values_with sin_beta_of asin_degrees model incid_angle source_depth =
       Inr (segment_offsets (traced_segments_with sin_beta_of asin_degrees model incid_angle source_depth),
            segment_labels (traced_segments_with sin_beta_of asin_degrees model incid_angle source_depth))"
  by (simp add: calculate_ray_tracing_values_with_valid traced_segments_with_def)

lemma traced_length_with:
  assumes "valid_input model incid_angle source_depth"
  shows "0 < length (traced_segments_with sin_beta_of asin_degrees model incid_angle source_depth)"
    "length (traced_segments_with sin_beta_of asin_degrees model incid_angle source_depth) \<le>
       length model - source_index model source_depth"
proof -
  from valid_input_source(1) [OF assms]
  have "drop (source_index model source_depth) model \<noteq> []"
    by simp
  then show "0 < length (traced_segments_with sin_beta_of asin_degrees model incid_angle source_depth)"
    unfolding traced_segments_with_def by (simp add: ray_segments_with_nonempty)
  show "length (traced_segments_with sin_beta_of asin_degrees model incid_angle source_depth) \<le>
       length model - source_index model source_depth"
    unfolding traced_segments_with_def using ray_segments_with_length [where layers = "drop (source_index model source_depth) model"]
    by simp
qed

lemma traced_first_angle_with:
  assumes "valid_input model incid_angle source_depth"
  shows "fst (segment_labels (traced_segments_with sin_beta_of asin_degrees model incid_angle source_depth) ! 0) = incid_angle"
proof -
  from valid_input_source(1) [OF assms]
  obtain layer rest where "drop (source_index model source_depth) model = layer # rest"
    by (cases "drop (source_index model source_depth) model") simp_all
  then show ?thesis
    by (simp add: traced_segments_with_def segment_labels_def segment_def Let_def)
qed

lemma traced_chain_with:
  assumes "Suc k < length (traced_segments_with sin_beta_of asin_degrees model incid_angle source_depth)"
  shows "count_angle_with sin_beta_of asin_degrees (fst (segment_labels (traced_segments_with sin_beta_of asin_degrees model incid_angle source_depth) ! k))
        (model ! (source_index model source_depth + k) ! 2)
        (model ! (source_index model source_depth + Suc k) ! 2) =
      Inr (fst (segment_labels (traced_segments_with sin_beta_of asin_degrees model incid_angle source_depth) ! Suc k)) \<and>
    \<not> py_eq (fst (segment_labels (traced_segments_with sin_beta_of asin_degrees model incid_angle source_depth) ! Suc k)) (PInt (- 2))"
proof -
  let ?s = "source_index model source_depth"
  let ?segs = "traced_segments_with sin_beta_of asin_degrees model incid_angle source_depth"
  have "length ?segs \<le> length (drop ?s model)"
    unfolding traced_segments_with_def by (rule ray_segments_with_length)
  with assms have "?s + Suc k < length model"
    by simp
  then have nth: "drop ?s model ! k = model ! (?s + k)" "drop ?s model ! Suc k = model ! (?s + Suc k)"
    by simp_all
  from assms have "k < length ?segs" by simp
  with assms ray_segments_with_chain [where k = k and angle = incid_angle
      and layers = "drop ?s model"] nth show ?thesis
    unfolding traced_segments_with_def by (simp add: segment_labels_nth)
qed

lemma trace_ray_with_valid:
  assumes "valid_input model incid_angle source_depth"
  shows "\<exists>res. trace_ray_with sin_beta_of asin_degrees model incid_angle source_depth = Inr res \<and>
    labels res = segment_labels (traced_segments_with sin_beta_of asin_degrees model incid_angle source_depth) \<and>
    length (coords_x res) = Suc (length (traced_segments_with sin_beta_of asin_degrees model incid_angle source_depth)) \<and>
    length (coords_y res) = Suc (length (traced_segments_with sin_beta_of asin_degrees model incid_angle source_depth)) \<and>
    coords_x res ! 0 = PInt 0 \<and> coords_y res ! 0 = source_depth \<and>
    (\<forall>k<length (traced_segments_with sin_beta_of asin_degrees model incid_angle source_depth).
       py_value (coords_x res ! Suc k) =
         fst (segment_offsets (traced_segments_with sin_beta_of asin_degrees model incid_angle source_depth) ! k) +
         py_value (coords_x res ! k) \<and>
       py_value (coords_y res ! Suc k) =
         snd (segment_offsets (traced_segments_with sin_beta_of asin_degrees model incid_angle source_depth) ! k) +
         py_value (coords_y res ! k))"
proof -
  let ?segs = "traced_segments_with sin_beta_of asin_degrees model incid_angle source_depth"
  from create_coordinates_sums [OF valid_input_source(2) [OF assms], of "segment_offsets ?segs"]
  obtain x y where
    coords: "create_coordinates source_depth (segment_offsets ?segs) = Inr (x, y)"
    and rest: "length x = Suc (length ?segs)" "length y = Suc (length ?segs)"
      "x ! 0 = PInt 0" "y ! 0 = source_depth"
      "\<forall>k<length ?segs.
        py_value (x ! Suc k) = fst (segment_offsets ?segs ! k) + py_value (x ! k) \<and>
        py_value (y ! Suc k) = snd (segment_offsets ?segs ! k) + py_value (y ! k)"
    by auto
  have "trace_ray_with sin_beta_of asin_degrees model incid_angle source_depth =
      Inr \<lparr>coords_x = x, coords_y = y, labels = segment_labels ?segs\<rparr>"
    by (simp add: trace_ray_with_def calculate_traced_with [OF assms] coords)
  with rest show ?thesis
    by simp
qed

lemma traced_index_bound_with:
  assumes "k < length (traced_segments_with sin_beta_of asin_degrees model incid_angle source_depth)"
  shows "source_index model source_depth + k < length model"
proof -
  have "length (traced_segments_with sin_beta_of asin_degrees model incid_angle source_depth) \<le>
      length (drop (source_index model source_depth) model)"
    unfolding traced_segments_with_def by (rule ray_segments_with_length)
  with assms show ?thesis by simp
qed

lemma traced_stops_at_with:
  assumes "j < length (traced_segments_with sin_beta_of asin_degrees model incid_angle source_depth)"
    and "count_angle_with sin_beta_of asin_degrees (fst (segment_labels (traced_segments_with sin_beta_of asin_degrees model incid_angle source_depth) ! j))
        (model ! (source_index model source_depth + j) ! 2)
        (model ! (source_index model source_depth + Suc j) ! 2) = Inr new_angle"
    and "py_eq new_angle (PInt (- 2))"
  shows "length (traced_segments_with sin_beta_of asin_degrees model incid_angle source_depth) = Suc j"
proof (rule ccontr)
  assume "length (traced_segments_with sin_beta_of asin_degrees model incid_angle source_depth) \<noteq> Suc j"
  with assms(1) have "Suc j < length (traced_segments_with sin_beta_of asin_degrees model incid_angle source_depth)"
    by simp
  from traced_chain_with [OF this] assms(2,3) show False
    by simp
qed

section \<open>Claims about the validator\<close>

text \<open>
  Claim C6: an input whose layer fields, incidence angle and source depth are all numeric
  passes the numeric type check. The code does not do this. Its tests are written
  \<open>type(x) is int or float\<close> and \<open>type(x) is not int or float\<close>, which Python reads as
  \<open>(type(x) is int) or float\<close>: the class \<open>float\<close> is always true, so the check on the
  incidence angle returns \<open>False\<close> for every input. Evaluated on the single layer
  \<open>(0, 100, 2000)\<close> with angle 0 and source depth 50, all integers: the type check fails and
  the entry point answers with the message of the numeric check.
\<close>

theorem numeric_check_rejects_numbers:
  "is_input_data_integer_or_float [[PInt 0, PInt 100, PInt 2000]] (PInt 0) (PInt 50) = Inr False \<and>
   check_input_data_correctness [[PInt 0, PInt 100, PInt 2000]] (PInt 0) (PInt 50) =
     Inr (Message ''Input data is not integer or float'')"
  by (simp add: check_input_data_correctness_def is_input_data_integer_or_float_def
      py_getitem_def float_class_truthy_def)

text \<open>
  Claim C4: the containment check succeeds exactly when some layer has
  \<open>top \<le> depth < bottom\<close>, for every real source depth. The code tests
  \<open>source_depth in range(top, bottom)\<close>, which holds whole numbers only: the depth 50.5 lies
  in the layer \<open>(0, 100, 2000)\<close>, and the check answers \<open>False\<close>.
\<close>

theorem fractional_depth_not_contained:
  "is_source_occur_in_seismic_model [[PInt 0, PInt 100, PInt 2000]] (PFloat (101 / 2)) = Inr False \<and>
   layer_top [PInt 0, PInt 100, PInt 2000] \<le> py_value (PFloat (101 / 2)) \<and>
   py_value (PFloat (101 / 2)) < layer_bottom [PInt 0, PInt 100, PInt 2000]"
  by (simp add: source_in_layer_def py_getitem_def layer_top_def layer_bottom_def)

text \<open>
  What the entry point answers, for every input: the message of the completeness check when
  some layer does not have three fields, and the message of the type check otherwise. A
  layer with two fields therefore gives the completeness message whatever else the input
  holds.
\<close>

lemma entry_point_answer:
  "check_input_data_correctness model incid_angle source_depth =
     Inr (Message (if is_layer_data_count_correct model
                   then ''Input data is not integer or float''
                   else ''Layer data is incorrect''))"
  by (simp add: check_input_data_correctness_def numeric_check_counted)

lemma two_field_layer_answer:
  assumes "layer \<in> set model" "length layer = 2"
  shows "check_input_data_correctness model incid_angle source_depth =
    Inr (Message ''Layer data is incorrect'')"
proof -
  from assms have "\<not> is_layer_data_count_correct model"
    unfolding count_correct_iff by fastforce
  then show ?thesis
    by (simp add: entry_point_answer)
qed

text \<open>
  Claim C5: the four checks run in order, the first one that fails gives the answer, and
  the tracer runs only after all four have passed. The code has the four checks in this
  order, but validation never gets past the second: the type check fails on every input
  (see C6), so the velocity check, the containment check and the tracer are unreachable.
  On the layer \<open>(0, 100, 0)\<close> with angle 0 and depth 50 the layer is complete, every value is
  a number and the velocity check is the first one that should fail; on \<open>(0, 100, 2000)\<close>
  with depth 150 it is the containment check. Both inputs get the message of the type check.
\<close>

theorem later_checks_unreached:
  "is_layer_data_count_correct [[PInt 0, PInt 100, PInt 0]] \<and>
   is_speed_data_correct [[PInt 0, PInt 100, PInt 0]] = Inr False \<and>
   check_input_data_correctness [[PInt 0, PInt 100, PInt 0]] (PInt 0) (PInt 50) =
     Inr (Message ''Input data is not integer or float'') \<and>
   is_layer_data_count_correct [[PInt 0, PInt 100, PInt 2000]] \<and>
   is_speed_data_correct [[PInt 0, PInt 100, PInt 2000]] = Inr True \<and>
   is_source_occur_in_seismic_model [[PInt 0, PInt 100, PInt 2000]] (PInt 150) = Inr False \<and>
   check_input_data_correctness [[PInt 0, PInt 100, PInt 2000]] (PInt 0) (PInt 150) =
     Inr (Message ''Input data is not integer or float'')"
  by (simp add: entry_point_answer py_getitem_def py_gt_zero_def source_in_layer_def)

section \<open>Claims about the tracer\<close>

text \<open>
  Claim C1 (Snell's law). Whenever \<open>count_angle\<close> computes a refraction angle at a boundary
  without critical angle, the sine of the incidence angle over the velocity of the layer left
  equals the sine of the refraction angle over the velocity of the layer entered. For a valid
  input the trace returns, and any two consecutive labels it emits carry angles related in
  this way by the velocities of their two layers. (Over the real numbers: the program's
  floats satisfy the equation up to rounding.)
\<close>

theorem snell_law_consistency:
  "(count_angle angle lower upper = Inr new_angle \<and>
      \<bar>sin (radians (py_value angle)) * (py_value upper / py_value lower)\<bar> \<le> 1 \<and>
      py_value upper \<noteq> 0 \<longrightarrow>
      sin (radians (py_value angle)) / py_value lower =
        sin (radians (py_value new_angle)) / py_value upper) \<and>
   (valid_input model incid_angle source_depth \<longrightarrow>
      (\<exists>offsets labs.
         calculate_ray_tracing_values model incid_angle source_depth = Inr (offsets, labs) \<and>
         (\<forall>j. Suc j < length labs \<longrightarrow>
            sin (radians (py_value (fst (labs ! j)))) /
              layer_velocity (model ! (source_index model source_depth + j)) =
            sin (radians (py_value (fst (labs ! Suc j)))) /
              layer_velocity (model ! (source_index model source_depth + Suc j)))))"
proof (intro conjI impI)
  assume "count_angle angle lower upper = Inr new_angle \<and>
      \<bar>sin (radians (py_value angle)) * (py_value upper / py_value lower)\<bar> \<le> 1 \<and>
      py_value upper \<noteq> 0"
  then show "sin (radians (py_value angle)) / py_value lower =
        sin (radians (py_value new_angle)) / py_value upper"
    by (intro count_angle_snell) simp_all
next
  assume input: "valid_input model incid_angle source_depth"
  let ?s = "source_index model source_depth"
  let ?segs = "traced_segments model incid_angle source_depth"
  from input have valid: "list_all valid_layer model"
    by (simp add: valid_input_def)
  have "sin (radians (py_value (fst (segment_labels ?segs ! j)))) / layer_velocity (model ! (?s + j)) =
        sin (radians (py_value (fst (segment_labels ?segs ! Suc j)))) /
          layer_velocity (model ! (?s + Suc j))"
    if "Suc j < length (segment_labels ?segs)" for j
  proof -
    from that have lt: "Suc j < length ?segs" by simp
    from traced_chain [OF lt] have
      refr: "count_angle (fst (segment_labels ?segs ! j)) (model ! (?s + j) ! 2)
          (model ! (?s + Suc j) ! 2) = Inr (fst (segment_labels ?segs ! Suc j))"
      and go: "\<not> py_eq (fst (segment_labels ?segs ! Suc j)) (PInt (- 2))"
      by simp_all
    have "py_value (model ! (?s + Suc j) ! 2) \<noteq> 0"
      using valid_speed_fields [OF valid traced_index_bound [OF lt]] by simp
    with count_angle_snell [OF refr count_angle_not_stopped [OF refr go]] show ?thesis
      by (simp add: layer_velocity_def)
  qed
  then show "\<exists>offsets labs.
      calculate_ray_tracing_values model incid_angle source_depth = Inr (offsets, labs) \<and>
      (\<forall>j. Suc j < length labs \<longrightarrow>
         sin (radians (py_value (fst (labs ! j)))) / layer_velocity (model ! (?s + j)) =
         sin (radians (py_value (fst (labs ! Suc j)))) / layer_velocity (model ! (?s + Suc j)))"
    using calculate_traced [OF input] by blast
qed

text \<open>
  Claim C2 (critical angle). For a valid input the trace returns. If a layer it has
  traversed (its label is emitted) meets the next layer with \<open>sin(theta1) * v2/v1\<close> beyond 1
  in magnitude, that layer's label is the last label and the vertex ending it is the last
  vertex.
\<close>

theorem critical_angle_termination:
  "valid_input model incid_angle source_depth \<longrightarrow>
     (\<exists>res. trace_ray model incid_angle source_depth = Inr res \<and>
        (\<forall>j. j < length (labels res) \<and>
             source_index model source_depth + Suc j < length model \<and>
             \<bar>sin (radians (py_value (fst (labels res ! j)))) *
                (layer_velocity (model ! (source_index model source_depth + Suc j)) /
                 layer_velocity (model ! (source_index model source_depth + j)))\<bar> > 1 \<longrightarrow>
             length (labels res) = Suc j \<and>
             length (coords_x res) = j + 2 \<and> length (coords_y res) = j + 2))"
proof
  assume input: "valid_input model incid_angle source_depth"
  let ?s = "source_index model source_depth"
  let ?segs = "traced_segments model incid_angle source_depth"
  from trace_ray_valid [OF input] obtain res where
    res: "trace_ray model incid_angle source_depth = Inr res"
    and labs: "labels res = segment_labels ?segs"
    and len: "length (coords_x res) = Suc (length ?segs)" "length (coords_y res) = Suc (length ?segs)"
    by blast
  have "length (labels res) = Suc j \<and> length (coords_x res) = j + 2 \<and> length (coords_y res) = j + 2"
    if j: "j < length (labels res)" and nxt: "?s + Suc j < length model"
      and critical: "\<bar>sin (radians (py_value (fst (labels res ! j)))) *
        (layer_velocity (model ! (?s + Suc j)) / layer_velocity (model ! (?s + j)))\<bar> > 1" for j
  proof -
    from j labs have lt: "j < length ?segs" by simp
    from traced_count_angle [OF input lt nxt] obtain new_angle where
      refr: "count_angle (fst (segment_labels ?segs ! j)) (model ! (?s + j) ! 2)
          (model ! (?s + Suc j) ! 2) = Inr new_angle"
      by blast
    from critical have "py_eq new_angle (PInt (- 2))"
      by (intro count_angle_critical [OF refr]) (simp add: labs layer_velocity_def)
    from traced_stops_at [OF lt refr this] show ?thesis
      by (simp add: labs len)
  qed
  with res show "\<exists>res. trace_ray model incid_angle source_depth = Inr res \<and>
        (\<forall>j. j < length (labels res) \<and> ?s + Suc j < length model \<and>
             \<bar>sin (radians (py_value (fst (labels res ! j)))) *
                (layer_velocity (model ! (?s + Suc j)) / layer_velocity (model ! (?s + j)))\<bar> > 1 \<longrightarrow>
             length (labels res) = Suc j \<and>
             length (coords_x res) = j + 2 \<and> length (coords_y res) = j + 2)"
    by blast
qed

lemma sin_radians_30: "sin (radians 30) = 1 / 2"
proof -
  have "radians 30 = pi / 6"
    by (simp add: radians_def)
  then show ?thesis
    by (simp only: sin_30)
qed

lemma source_index_first:
  "source_in_layer source_depth layer = Inr True \<Longrightarrow>
     source_index (layer # rest) source_depth = 0"
  by (simp add: source_index_def)

text \<open>
  An instance of C2: two layers with velocities 1000 and 3000, source at depth 50 in the
  first, incidence angle 30 degrees. \<open>sin(30) * 3000/1000 = 1.5\<close>, and the trace ends with
  one label and two vertices.
\<close>

theorem critical_angle_termination_witness:
  "valid_input [[PInt 0, PInt 100, PInt 1000], [PInt 100, PInt 200, PInt 3000]] (PInt 30) (PInt 50) \<and>
   (\<exists>res. trace_ray [[PInt 0, PInt 100, PInt 1000], [PInt 100, PInt 200, PInt 3000]]
        (PInt 30) (PInt 50) = Inr res \<and>
      \<bar>sin (radians (py_value (fst (labels res ! 0)))) * (3000 / 1000)\<bar> > 1 \<and>
      length (labels res) = 1 \<and> length (coords_x res) = 2 \<and> length (coords_y res) = 2)"
proof -
  let ?model = "[[PInt 0, PInt 100, PInt 1000], [PInt 100, PInt 200, PInt 3000]]"
  have inside: "source_in_layer (PInt 50) [PInt 0, PInt 100, PInt 1000] = Inr True"
    by (simp add: source_in_layer_def py_getitem_def)
  have input: "valid_input ?model (PInt 30) (PInt 50)"
    by (simp add: valid_input_def inside)
  have s: "source_index ?model (PInt 50) = 0"
    using inside by (rule source_index_first)
  from critical_angle_termination [of ?model "PInt 30" "PInt 50"] input obtain res where
    res: "trace_ray ?model (PInt 30) (PInt 50) = Inr res"
    and stop: "\<And>j. j < length (labels res) \<and>
             source_index ?model (PInt 50) + Suc j < length ?model \<and>
             \<bar>sin (radians (py_value (fst (labels res ! j)))) *
                (layer_velocity (?model ! (source_index ?model (PInt 50) + Suc j)) /
                 layer_velocity (?model ! (source_index ?model (PInt 50) + j)))\<bar> > 1 \<Longrightarrow>
             length (labels res) = Suc j \<and>
             length (coords_x res) = j + 2 \<and> length (coords_y res) = j + 2"
    by blast
  from trace_ray_valid [OF input] res
  have labs: "labels res = segment_labels (traced_segments ?model (PInt 30) (PInt 50))"
    by auto
  have first: "fst (labels res ! 0) = PInt 30"
    unfolding labs by (rule traced_first_angle [OF input])
  have nonempty: "0 < length (labels res)"
    unfolding labs using traced_length(1) [OF input] by simp
  have critical: "\<bar>sin (radians (py_value (fst (labels res ! 0)))) * (3000 / 1000)\<bar> > 1"
    by (simp add: first sin_radians_30)
  from stop [of 0] nonempty critical
  have "length (labels res) = 1 \<and> length (coords_x res) = 2 \<and> length (coords_y res) = 2"
    by (simp add: s layer_velocity_def)
  with input res critical show ?thesis
    by blast
qed

lemma arcsin_quarter_pos: "0 < arcsin (1 / 4 :: real)"
  using arcsin_less_mono [of 0 "1 / 4"] by simp

lemma radians_minus_two_range: "- (pi / 2) \<le> radians (- 2)" "radians (- 2) \<le> pi / 2"
proof -
  have "0 < pi" by simp
  then show "- (pi / 2) \<le> radians (- 2)"
    unfolding radians_def by linarith
  from \<open>0 < pi\<close> show "radians (- 2) \<le> pi / 2"
    unfolding radians_def by linarith
qed

lemma refraction_of_minus_two: "degrees (arcsin (sin (radians (- 2)))) = - 2"
  using arcsin_sin [OF radians_minus_two_range] by (simp only: degrees_radians)

text \<open>
  An instance of C1: velocities 2000 and 1000, source at depth 50, incidence angle 30
  degrees. \<open>sin_beta = 1/4\<close>; both layers are traversed and the two angles satisfy the law.
\<close>

theorem snell_law_consistency_witness:
  "count_angle (PInt 30) (PInt 2000) (PInt 1000) = Inr (PFloat (degrees (arcsin (1 / 4)))) \<and>
   sin (radians (py_value (PInt 30))) / py_value (PInt 2000) =
     sin (radians (py_value (PFloat (degrees (arcsin (1 / 4)))))) / py_value (PInt 1000) \<and>
   valid_input [[PInt 0, PInt 100, PInt 2000], [PInt 100, PInt 200, PInt 1000]] (PInt 30) (PInt 50) \<and>
   (\<exists>offsets labs.
      calculate_ray_tracing_values [[PInt 0, PInt 100, PInt 2000], [PInt 100, PInt 200, PInt 1000]]
        (PInt 30) (PInt 50) = Inr (offsets, labs) \<and>
      length labs = 2 \<and> fst (labs ! 0) = PInt 30 \<and>
      sin (radians 30) / 2000 = sin (radians (py_value (fst (labs ! 1)))) / 1000)"
proof -
  let ?model = "[[PInt 0, PInt 100, PInt 2000], [PInt 100, PInt 200, PInt 1000]]"
  let ?segs = "traced_segments ?model (PInt 30) (PInt 50)"
  have refr: "count_angle (PInt 30) (PInt 2000) (PInt 1000) = Inr (PFloat (degrees (arcsin (1 / 4))))"
    by (simp add: count_angle_number sin_radians_30)
  have "0 < degrees (arcsin (1 / 4))"
    unfolding degrees_def using arcsin_quarter_pos pi_gt_zero by simp
  then have ne: "degrees (arcsin (1 / 4)) \<noteq> - 2"
    by simp
  have law: "sin (radians (py_value (PInt 30))) / py_value (PInt 2000) =
     sin (radians (py_value (PFloat (degrees (arcsin (1 / 4)))))) / py_value (PInt 1000)"
    using snell_law_consistency [of "PInt 30" "PInt 2000" "PInt 1000" "PFloat (degrees (arcsin (1 / 4)))"]
      refr by (simp add: sin_radians_30)
  have inside: "source_in_layer (PInt 50) [PInt 0, PInt 100, PInt 2000] = Inr True"
    by (simp add: source_in_layer_def py_getitem_def)
  have input: "valid_input ?model (PInt 30) (PInt 50)"
    by (simp add: valid_input_def inside)
  have s: "source_index ?model (PInt 50) = 0"
    using inside by (rule source_index_first)
  have segs: "length ?segs = 2" "fst (segment_labels ?segs ! 0) = PInt 30"
    by (simp_all add: traced_segments_def s refr ne segment_labels_def segment_def Let_def)
  from snell_law_consistency [of _ _ _ _ ?model "PInt 30" "PInt 50"] input obtain offsets labs where
    run: "calculate_ray_tracing_values ?model (PInt 30) (PInt 50) = Inr (offsets, labs)"
    and chain: "\<And>j. Suc j < length labs \<Longrightarrow>
        sin (radians (py_value (fst (labs ! j)))) /
          layer_velocity (?model ! (source_index ?model (PInt 50) + j)) =
        sin (radians (py_value (fst (labs ! Suc j)))) /
          layer_velocity (?model ! (source_index ?model (PInt 50) + Suc j))"
    by blast
  from run calculate_traced [OF input] have labs: "labs = segment_labels ?segs"
    by simp
  have len: "length labs = 2" and first: "fst (labs ! 0) = PInt 30"
    using segs by (simp_all add: labs)
  from chain [of 0] len first
  have "sin (radians 30) / 2000 = sin (radians (py_value (fst (labs ! 1)))) / 1000"
    by (simp add: s layer_velocity_def)
  with refr law input run len first show ?thesis
    by blast
qed



text \<open>
  Claim C9 (depth accumulation). For a valid input the trace returns; its first vertex lies
  at the source depth; the depths of two consecutive vertices differ by the thickness of the
  layer between them, \<open>|bottom - source_depth|\<close> for the source layer and \<open>|bottom - top|\<close>
  for every later one; no step is negative, and the sequence of depths is non-decreasing.
\<close>

theorem depth_accumulation:
  "valid_input model incid_angle source_depth \<longrightarrow>
     (\<exists>res. trace_ray model incid_angle source_depth = Inr res \<and>
        coords_y res ! 0 = source_depth \<and>
        (\<forall>k. Suc k < length (coords_y res) \<longrightarrow>
           py_value (coords_y res ! Suc k) - py_value (coords_y res ! k) =
             (if k = 0
              then \<bar>layer_bottom (model ! source_index model source_depth) - py_value source_depth\<bar>
              else \<bar>layer_bottom (model ! (source_index model source_depth + k)) -
                    layer_top (model ! (source_index model source_depth + k))\<bar>) \<and>
           0 \<le> py_value (coords_y res ! Suc k) - py_value (coords_y res ! k)) \<and>
        sorted (map py_value (coords_y res)))"
proof
  assume input: "valid_input model incid_angle source_depth"
  let ?s = "source_index model source_depth"
  let ?segs = "traced_segments model incid_angle source_depth"
  from trace_ray_valid [OF input] obtain res where
    res: "trace_ray model incid_angle source_depth = Inr res"
    and len: "length (coords_y res) = Suc (length ?segs)"
    and start: "coords_y res ! 0 = source_depth"
    and sums: "\<forall>k<length ?segs. py_value (coords_y res ! Suc k) =
         snd (segment_offsets ?segs ! k) + py_value (coords_y res ! k)"
    by blast
  have step: "py_value (coords_y res ! Suc k) - py_value (coords_y res ! k) =
      (if k = 0 then \<bar>layer_bottom (model ! ?s) - py_value source_depth\<bar>
       else \<bar>layer_bottom (model ! (?s + k)) - layer_top (model ! (?s + k))\<bar>)"
    if "Suc k < length (coords_y res)" for k
  proof -
    from that len have lt: "k < length ?segs" by simp
    with sums have "py_value (coords_y res ! Suc k) - py_value (coords_y res ! k) =
        snd (segment_offsets ?segs ! k)"
      by simp
    with traced_thickness [OF lt] show ?thesis
      by simp
  qed
  have up: "0 \<le> py_value (coords_y res ! Suc k) - py_value (coords_y res ! k)"
    if "Suc k < length (coords_y res)" for k
    using step [OF that] by (simp split: if_splits)
  have "sorted (map py_value (coords_y res))"
    unfolding sorted_iff_nth_Suc using up by (simp add: nth_map)
  then show "\<exists>res. trace_ray model incid_angle source_depth = Inr res \<and>
        coords_y res ! 0 = source_depth \<and>
        (\<forall>k. Suc k < length (coords_y res) \<longrightarrow>
           py_value (coords_y res ! Suc k) - py_value (coords_y res ! k) =
             (if k = 0 then \<bar>layer_bottom (model ! ?s) - py_value source_depth\<bar>
              else \<bar>layer_bottom (model ! (?s + k)) - layer_top (model ! (?s + k))\<bar>) \<and>
           0 \<le> py_value (coords_y res ! Suc k) - py_value (coords_y res ! k)) \<and>
        sorted (map py_value (coords_y res))"
    using res start step up by (intro exI [of _ res] conjI allI impI)
qed

text \<open>
  An instance of C9, on the model and the source of the repository's own script (six
  layers, incidence angle 39.85, source depth -2300): the first vertex lies at depth -2300
  and the second at -2200, the bottom of the source layer, 100 below.
\<close>

theorem depth_accumulation_witness:
  "valid_input [[PInt (- 2500), PInt (- 2200), PInt 3000], [PInt (- 2200), PInt (- 1800), PInt 2500],
      [PInt (- 1800), PInt (- 1000), PInt 2000], [PInt (- 1000), PInt (- 500), PInt 1500],
      [PInt (- 500), PInt 200, PInt 900], [PInt 200, PInt 500, PInt 600]]
      (PFloat (3985 / 100)) (PInt (- 2300)) \<and>
   (\<exists>res. trace_ray [[PInt (- 2500), PInt (- 2200), PInt 3000], [PInt (- 2200), PInt (- 1800), PInt 2500],
      [PInt (- 1800), PInt (- 1000), PInt 2000], [PInt (- 1000), PInt (- 500), PInt 1500],
      [PInt (- 500), PInt 200, PInt 900], [PInt 200, PInt 500, PInt 600]]
        (PFloat (3985 / 100)) (PInt (- 2300)) = Inr res \<and>
      coords_y res ! 0 = PInt (- 2300) \<and>
      py_value (coords_y res ! 1) - py_value (coords_y res ! 0) = 100 \<and>
      py_value (coords_y res ! 1) = - 2200 \<and>
      sorted (map py_value (coords_y res)))"
proof -
  let ?model = "[[PInt (- 2500), PInt (- 2200), PInt 3000], [PInt (- 2200), PInt (- 1800), PInt 2500],
      [PInt (- 1800), PInt (- 1000), PInt 2000], [PInt (- 1000), PInt (- 500), PInt 1500],
      [PInt (- 500), PInt 200, PInt 900], [PInt 200, PInt 500, PInt 600]]"
  let ?angle = "PFloat (3985 / 100)"
  have inside: "source_in_layer (PInt (- 2300)) [PInt (- 2500), PInt (- 2200), PInt 3000] = Inr True"
    by (simp add: source_in_layer_def py_getitem_def)
  have input: "valid_input ?model ?angle (PInt (- 2300))"
    by (simp add: valid_input_def inside)
  have s: "source_index ?model (PInt (- 2300)) = 0"
    using inside by (rule source_index_first)
  from depth_accumulation [THEN mp, OF input] obtain res where
    res: "trace_ray ?model ?angle (PInt (- 2300)) = Inr res"
    and start: "coords_y res ! 0 = PInt (- 2300)"
    and step: "\<And>k. Suc k < length (coords_y res) \<Longrightarrow>
        py_value (coords_y res ! Suc k) - py_value (coords_y res ! k) =
          (if k = 0
           then \<bar>layer_bottom (?model ! source_index ?model (PInt (- 2300))) - py_value (PInt (- 2300))\<bar>
           else \<bar>layer_bottom (?model ! (source_index ?model (PInt (- 2300)) + k)) -
                 layer_top (?model ! (source_index ?model (PInt (- 2300)) + k))\<bar>)"
    and sorted: "sorted (map py_value (coords_y res))"
    by blast
  from trace_ray_valid [OF input] obtain res' where
    "trace_ray ?model ?angle (PInt (- 2300)) = Inr res'"
    "length (coords_y res') = Suc (length (traced_segments ?model ?angle (PInt (- 2300))))"
    by blast
  with res traced_length(1) [OF input] have "Suc 0 < length (coords_y res)"
    by simp
  from step [OF this] have diff: "py_value (coords_y res ! 1) - py_value (coords_y res ! 0) = 100"
    by (simp add: s layer_bottom_def)
  then have "py_value (coords_y res ! 1) = - 2200"
    by (simp add: start)
  with input res start diff sorted show ?thesis
    by (intro conjI exI [of _ res]) simp_all
qed

text \<open>
  Claim C7 (no uncontrolled failure). For every input (a list of layers, each a list of
  values, with any angle and depth) the entry point returns a message and never raises; it
  is always one of the first two messages, since the type check lets no input through. The
  tracer itself cannot divide by zero once the velocity check has answered \<open>True\<close>.
\<close>

theorem entry_point_outcome:
  "(check_input_data_correctness model incid_angle source_depth =
      Inr (Message ''Layer data is incorrect'') \<or>
    check_input_data_correctness model incid_angle source_depth =
      Inr (Message ''Input data is not integer or float'')) \<and>
   (is_speed_data_correct model = Inr True \<longrightarrow>
      trace_ray model incid_angle source_depth \<noteq> Inl ZeroDivisionError)"
proof (intro conjI impI)
  show "check_input_data_correctness model incid_angle source_depth =
      Inr (Message ''Layer data is incorrect'') \<or>
    check_input_data_correctness model incid_angle source_depth =
      Inr (Message ''Input data is not integer or float'')"
    by (cases "is_layer_data_count_correct model")
      (simp_all add: check_input_data_correctness_def numeric_check_counted)
next
  assume "is_speed_data_correct model = Inr True"
  then show "trace_ray model incid_angle source_depth \<noteq> Inl ZeroDivisionError"
    by (rule trace_ray_no_zero_division)
qed

text \<open>
  An instance of C7: on the layer \<open>(0, 100, 2000)\<close> with source depth 50 the velocity check
  passes and the tracer does not divide by zero; on \<open>(0, 100, 0)\<close> the velocity check
  fails, and the tracer called without it does divide by zero.
\<close>

theorem entry_point_outcome_witness:
  "check_input_data_correctness [[PInt 0, PInt 100, PInt 2000]] (PInt 0) (PInt 50) =
     Inr (Message ''Input data is not integer or float'') \<and>
   is_speed_data_correct [[PInt 0, PInt 100, PInt 2000]] = Inr True \<and>
   trace_ray [[PInt 0, PInt 100, PInt 2000]] (PInt 0) (PInt 50) \<noteq> Inl ZeroDivisionError \<and>
   is_speed_data_correct [[PInt 0, PInt 100, PInt 0]] = Inr False \<and>
   trace_ray [[PInt 0, PInt 100, PInt 0]] (PInt 0) (PInt 50) = Inl ZeroDivisionError"
proof -
  have speed: "is_speed_data_correct [[PInt 0, PInt 100, PInt 2000]] = Inr True"
    by (simp add: py_getitem_def py_gt_zero_def)
  have count: "is_layer_data_count_correct [[PInt 0, PInt 100, PInt 2000]]"
    by simp
  note outcome = entry_point_outcome [of "[[PInt 0, PInt 100, PInt 2000]]" "PInt 0" "PInt 50"]
  have "check_input_data_correctness [[PInt 0, PInt 100, PInt 2000]] (PInt 0) (PInt 50) \<noteq>
      Inr (Message ''Layer data is incorrect'')"
    by (simp add: check_input_data_correctness_def numeric_check_counted)
  with outcome have "check_input_data_correctness [[PInt 0, PInt 100, PInt 2000]] (PInt 0) (PInt 50) =
      Inr (Message ''Input data is not integer or float'')"
    by blast
  moreover from outcome speed
  have "trace_ray [[PInt 0, PInt 100, PInt 2000]] (PInt 0) (PInt 50) \<noteq> Inl ZeroDivisionError"
    by blast
  moreover have "is_speed_data_correct [[PInt 0, PInt 100, PInt 0]] = Inr False"
    by (simp add: py_getitem_def py_gt_zero_def)
  moreover have "trace_ray [[PInt 0, PInt 100, PInt 0]] (PInt 0) (PInt 50) = Inl ZeroDivisionError"
    by (simp add: trace_ray_def calculate_ray_tracing_values_def loop_body_def trace_layer_def
        is_layer_exist_source_def source_in_layer_def py_getitem_def get_thickness_def py_sub_def
        find_x_length_def count_ray_duration_def py_truediv_def initial_state_def Let_def)
  ultimately show ?thesis
    using speed by simp
qed

text \<open>
  The number of vertices of the trace of a valid input: it starts at \<open>(0, source_depth)\<close>,
  has one vertex more than labels and at most one more than layers from the source layer
  on, and exactly that many unless \<open>count_angle\<close> answered a value equal to \<open>-2\<close> at some
  boundary.
\<close>

lemma vertex_count_bound:
  assumes input: "valid_input model incid_angle source_depth"
  shows "\<exists>res. trace_ray model incid_angle source_depth = Inr res \<and>
    coords_x res ! 0 = PInt 0 \<and> coords_y res ! 0 = source_depth \<and>
    length (coords_x res) = length (coords_y res) \<and>
    length (coords_x res) \<le> length model - source_index model source_depth + 1 \<and>
    length (labels res) + 1 = length (coords_x res) \<and>
    ((\<forall>j new_angle. j < length (labels res) \<and>
         count_angle (fst (labels res ! j)) (model ! (source_index model source_depth + j) ! 2)
           (model ! (source_index model source_depth + Suc j) ! 2) = Inr new_angle \<longrightarrow>
         \<not> py_eq new_angle (PInt (- 2))) \<longrightarrow>
     length (coords_x res) = length model - source_index model source_depth + 1)"
proof -
  let ?s = "source_index model source_depth"
  let ?segs = "traced_segments model incid_angle source_depth"
  from input have valid: "list_all valid_layer model" and number: "is_number incid_angle"
    by (simp_all add: valid_input_def)
  from trace_ray_valid [OF input] obtain res where
    res: "trace_ray model incid_angle source_depth = Inr res"
    and labs: "labels res = segment_labels ?segs"
    and len: "length (coords_x res) = Suc (length ?segs)" "length (coords_y res) = Suc (length ?segs)"
    and start: "coords_x res ! 0 = PInt 0" "coords_y res ! 0 = source_depth"
    by blast
  have full: "length ?segs = length model - ?s"
    if go: "\<forall>j new_angle. j < length (labels res) \<and>
         count_angle (fst (labels res ! j)) (model ! (?s + j) ! 2) (model ! (?s + Suc j) ! 2) =
           Inr new_angle \<longrightarrow> \<not> py_eq new_angle (PInt (- 2))"
  proof (rule ccontr)
    assume "length ?segs \<noteq> length model - ?s"
    with traced_length(2) [OF input] have short: "length ?segs < length (drop ?s model)"
      by simp
    from valid have "list_all valid_layer (drop ?s model)"
      by (simp add: list_all_length)
    from ray_segments_stop [OF this number, of _ ] short obtain k new_angle where
      k: "Suc k = length ?segs"
      and refr: "count_angle (fst (snd (snd (?segs ! k)))) (drop ?s model ! k ! 2)
          (drop ?s model ! Suc k ! 2) = Inr new_angle"
      and stop: "py_eq new_angle (PInt (- 2))"
      unfolding traced_segments_def by blast
    from k short have "?s + Suc k < length model"
      by simp
    then have nth: "drop ?s model ! k = model ! (?s + k)" "drop ?s model ! Suc k = model ! (?s + Suc k)"
      by simp_all
    from k have lt: "k < length ?segs" by simp
    with refr have "count_angle (fst (labels res ! k)) (model ! (?s + k) ! 2)
        (model ! (?s + Suc k) ! 2) = Inr new_angle"
      by (simp add: labs segment_labels_nth nth)
    with go lt stop show False
      by (simp add: labs)
  qed
  show ?thesis
  proof (intro exI [of _ res] conjI impI)
    show "trace_ray model incid_angle source_depth = Inr res" by (fact res)
    show "coords_x res ! 0 = PInt 0" by (fact start)
    show "coords_y res ! 0 = source_depth" by (fact start)
    show "length (coords_x res) = length (coords_y res)" by (simp add: len)
    show "length (coords_x res) \<le> length model - ?s + 1"
      using traced_length(2) [OF input] by (simp add: len)
    show "length (labels res) + 1 = length (coords_x res)" by (simp add: labs len)
    show "length (coords_x res) = length model - ?s + 1"
      if "\<forall>j new_angle. j < length (labels res) \<and>
         count_angle (fst (labels res ! j)) (model ! (?s + j) ! 2) (model ! (?s + Suc j) ! 2) =
           Inr new_angle \<longrightarrow> \<not> py_eq new_angle (PInt (- 2))"
      using full [OF that] by (simp add: len)
  qed
qed

text \<open>
  Claim C3: the trace has exactly \<open>N + 1\<close> vertices when no critical angle is hit. The code
  does not keep this: \<open>count_angle\<close> signals total reflection by returning \<open>-2\<close>, and a
  refraction angle of -2 degrees is read as that signal. On two layers of velocity 2000 with
  the source at depth 50 and incidence angle -2 (\<open>N = 2\<close>, and \<open>|sin_beta| \<le> 1\<close> at the only
  boundary) the trace has two vertices and one label, not three and two.
\<close>

theorem vertex_count_minus_two:
  "\<exists>res. trace_ray [[PInt 0, PInt 100, PInt 2000], [PInt 100, PInt 200, PInt 2000]]
        (PInt (- 2)) (PInt 50) = Inr res \<and>
     length [[PInt 0, PInt 100, PInt 2000], [PInt 100, PInt 200, PInt 2000]] -
       source_index [[PInt 0, PInt 100, PInt 2000], [PInt 100, PInt 200, PInt 2000]] (PInt 50) = 2 \<and>
     \<bar>sin (radians (- 2)) * (2000 / 2000)\<bar> \<le> 1 \<and>
     length (coords_x res) = 2 \<and> length (coords_y res) = 2 \<and> length (labels res) = 1"
proof -
  let ?model = "[[PInt 0, PInt 100, PInt 2000], [PInt 100, PInt 200, PInt 2000]]"
  let ?segs = "traced_segments ?model (PInt (- 2)) (PInt 50)"
  have inside: "source_in_layer (PInt 50) [PInt 0, PInt 100, PInt 2000] = Inr True"
    by (simp add: source_in_layer_def py_getitem_def)
  have input: "valid_input ?model (PInt (- 2)) (PInt 50)"
    by (simp add: valid_input_def inside)
  have s: "source_index ?model (PInt 50) = 0"
    using inside by (rule source_index_first)
  have inside_one: "\<not> 1 < \<bar>sin (radians (- 2))\<bar>"
    using abs_sin_le_one [of "radians (- 2)"] by linarith
  have refr: "count_angle (PInt (- 2)) (PInt 2000) (PInt 2000) = Inr (PFloat (- 2))"
    using refraction_of_minus_two inside_one by (simp add: count_angle_number)
  have first: "fst (segment_labels ?segs ! 0) = PInt (- 2)"
    by (rule traced_first_angle [OF input])
  have "length ?segs = Suc 0"
    using traced_length(1) [OF input]
  proof (rule traced_stops_at)
    show "count_angle (fst (segment_labels ?segs ! 0))
        (?model ! (source_index ?model (PInt 50) + 0) ! 2)
        (?model ! (source_index ?model (PInt 50) + Suc 0) ! 2) = Inr (PFloat (- 2))"
      by (simp add: first s refr)
    show "py_eq (PFloat (- 2)) (PInt (- 2))"
      by simp
  qed
  with trace_ray_valid [OF input] obtain res where
    "trace_ray ?model (PInt (- 2)) (PInt 50) = Inr res"
    "length (coords_x res) = 2" "length (coords_y res) = 2" "length (labels res) = 1"
    by auto
  then show ?thesis
    by (intro exI [of _ res]) (simp add: s)
qed

lemma ray_segments_with_numbers:
  "is_number angle \<Longrightarrow>
   k < length (ray_segments_with sin_beta_of asin_degrees angle thickness layers) \<Longrightarrow>
     is_number (fst (snd (snd (ray_segments_with sin_beta_of asin_degrees angle thickness layers ! k))))"
proof (induction k)
  case 0
  then show ?case
    by (cases layers) (simp_all add: segment_def Let_def)
next
  case (Suc k)
  then have "Suc k < length (ray_segments_with sin_beta_of asin_degrees angle thickness layers)"
    by simp
  from ray_segments_with_chain [OF this] show ?case
    using count_angle_with_result_number by blast
qed

text \<open>What \<open>count_angle\<close> answers on numbers, in terms of its two rounded expressions.\<close>

lemma count_angle_with_value:
  assumes "is_number angle" "is_number lower" "py_value lower \<noteq> 0" "is_number upper"
  shows "count_angle_with sin_beta_of asin_degrees angle lower upper =
    Inr (if \<bar>sin_beta_of (py_value angle) (py_value upper) (py_value lower)\<bar> > 1 then PInt (- 2)
         else PFloat (asin_degrees (sin_beta_of (py_value angle) (py_value upper) (py_value lower))))"
  using assms by (simp add: count_angle_with_def py_float_number Let_def)

lemma traced_count_angle_with:
  assumes "valid_input model incid_angle source_depth"
    and "j < length (traced_segments_with sin_beta_of asin_degrees model incid_angle source_depth)"
    and "source_index model source_depth + Suc j < length model"
  shows "is_number (fst (segment_labels
        (traced_segments_with sin_beta_of asin_degrees model incid_angle source_depth) ! j)) \<and>
    is_number (model ! (source_index model source_depth + j) ! 2) \<and>
    py_value (model ! (source_index model source_depth + j) ! 2) \<noteq> 0 \<and>
    is_number (model ! (source_index model source_depth + Suc j) ! 2)"
proof -
  from assms(1) have valid: "list_all valid_layer model" and number: "is_number incid_angle"
    by (simp_all add: valid_input_def)
  have "is_number (fst (segment_labels
      (traced_segments_with sin_beta_of asin_degrees model incid_angle source_depth) ! j))"
    using ray_segments_with_numbers [OF number, where k = j] assms(2)
    by (simp add: traced_segments_with_def segment_labels_nth)
  moreover from assms(3) have "source_index model source_depth + j < length model"
    by simp
  from valid_speed_fields [OF valid this]
  have "is_number (model ! (source_index model source_depth + j) ! 2)"
    "py_value (model ! (source_index model source_depth + j) ! 2) \<noteq> 0"
    by simp_all
  moreover from valid_speed_fields [OF valid assms(3)]
  have "is_number (model ! (source_index model source_depth + Suc j) ! 2)"
    by simp
  ultimately show ?thesis
    by simp
qed

text \<open>With exact arithmetic for the two expressions, the tracer is the one defined first.\<close>

lemma count_angle_with_exact:
  "count_angle_with exact_sin_beta exact_asin_degrees = count_angle"
proof (intro ext)
  fix angle lower upper
  show "count_angle_with exact_sin_beta exact_asin_degrees angle lower upper =
      count_angle angle lower upper"
    by (cases "py_float angle"; cases "py_float upper"; cases "py_float lower")
      (simp_all add: count_angle_with_def count_angle_def py_truediv_def Let_def
        exact_sin_beta_def exact_asin_degrees_def)
qed

lemma trace_layer_with_exact:
  "trace_layer_with exact_sin_beta exact_asin_degrees = trace_layer"
  by (intro ext) (simp only: trace_layer_with_def trace_layer_def count_angle_with_exact)

lemma loop_body_with_exact:
  "loop_body_with exact_sin_beta exact_asin_degrees = loop_body"
  by (intro ext) (simp only: loop_body_with_def loop_body_def trace_layer_with_exact)

lemma trace_ray_with_exact:
  "trace_ray_with exact_sin_beta exact_asin_degrees = trace_ray"
  by (intro ext)
    (simp only: trace_ray_with_def trace_ray_def calculate_ray_tracing_values_with_def
      calculate_ray_tracing_values_def loop_body_with_exact)

text \<open>
  Claim C10 (the sign \<open>-2\<close> met as an angle). Whatever doubles the program's arithmetic
  yields for \<open>sin(radians(a)) * (u / l)\<close> and for \<open>degrees(asin(s))\<close>: for a valid input the
  trace returns, and if at the boundary below a traversed layer the computed \<open>sin_beta\<close> is
  not critical and the computed refraction angle is exactly \<open>-2\<close>, the trace ends there as
  it does on total reflection. That layer's label and vertex are the last ones, so the
  layers below contribute nothing.
\<close>

theorem minus_two_degrees_stops:
  "valid_input model incid_angle source_depth \<longrightarrow>
     (\<exists>res. trace_ray_with sin_beta_of asin_degrees model incid_angle source_depth = Inr res \<and>
        (\<forall>j. j < length (labels res) \<and>
             source_index model source_depth + Suc j < length model \<and>
             \<bar>sin_beta_of (py_value (fst (labels res ! j)))
                (layer_velocity (model ! (source_index model source_depth + Suc j)))
                (layer_velocity (model ! (source_index model source_depth + j)))\<bar> \<le> 1 \<and>
             asin_degrees (sin_beta_of (py_value (fst (labels res ! j)))
                (layer_velocity (model ! (source_index model source_depth + Suc j)))
                (layer_velocity (model ! (source_index model source_depth + j)))) = - 2 \<longrightarrow>
             length (labels res) = Suc j \<and>
             length (coords_x res) = j + 2 \<and> length (coords_y res) = j + 2 \<and>
             length (coords_x res) < length model - source_index model source_depth + 1))"
proof
  assume input: "valid_input model incid_angle source_depth"
  let ?s = "source_index model source_depth"
  let ?segs = "traced_segments_with sin_beta_of asin_degrees model incid_angle source_depth"
  from trace_ray_with_valid [OF input] obtain res where
    res: "trace_ray_with sin_beta_of asin_degrees model incid_angle source_depth = Inr res"
    and labs: "labels res = segment_labels ?segs"
    and len: "length (coords_x res) = Suc (length ?segs)" "length (coords_y res) = Suc (length ?segs)"
    by blast
  have "length (labels res) = Suc j \<and> length (coords_x res) = j + 2 \<and>
      length (coords_y res) = j + 2 \<and> length (coords_x res) < length model - ?s + 1"
    if j: "j < length (labels res)" and nxt: "?s + Suc j < length model"
      and inside: "\<bar>sin_beta_of (py_value (fst (labels res ! j)))
        (layer_velocity (model ! (?s + Suc j))) (layer_velocity (model ! (?s + j)))\<bar> \<le> 1"
      and minus_two: "asin_degrees (sin_beta_of (py_value (fst (labels res ! j)))
        (layer_velocity (model ! (?s + Suc j))) (layer_velocity (model ! (?s + j)))) = - 2" for j
  proof -
    from j labs have lt: "j < length ?segs" by simp
    from traced_count_angle_with [OF input lt nxt]
    have numbers: "is_number (fst (segment_labels ?segs ! j))"
      "is_number (model ! (?s + j) ! 2)" "py_value (model ! (?s + j) ! 2) \<noteq> 0"
      "is_number (model ! (?s + Suc j) ! 2)"
      by simp_all
    from count_angle_with_value [OF numbers, where sin_beta_of = sin_beta_of
        and asin_degrees = asin_degrees] inside minus_two
    have refr: "count_angle_with sin_beta_of asin_degrees (fst (segment_labels ?segs ! j))
        (model ! (?s + j) ! 2) (model ! (?s + Suc j) ! 2) = Inr (PFloat (- 2))"
      by (simp add: labs layer_velocity_def)
    have "py_eq (PFloat (- 2)) (PInt (- 2))"
      by simp
    from traced_stops_at_with [OF lt refr this] nxt show ?thesis
      by (simp add: labs len)
  qed
  with res show "\<exists>res. trace_ray_with sin_beta_of asin_degrees model incid_angle source_depth = Inr res \<and>
        (\<forall>j. j < length (labels res) \<and> ?s + Suc j < length model \<and>
             \<bar>sin_beta_of (py_value (fst (labels res ! j)))
                (layer_velocity (model ! (?s + Suc j))) (layer_velocity (model ! (?s + j)))\<bar> \<le> 1 \<and>
             asin_degrees (sin_beta_of (py_value (fst (labels res ! j)))
                (layer_velocity (model ! (?s + Suc j))) (layer_velocity (model ! (?s + j)))) = - 2 \<longrightarrow>
             length (labels res) = Suc j \<and>
             length (coords_x res) = j + 2 \<and> length (coords_y res) = j + 2 \<and>
             length (coords_x res) < length model - ?s + 1)"
    by blast
qed

text \<open>
  An instance of C10, with exact arithmetic for the two expressions: three layers of
  velocity 1500, source at depth 5 in the first, incidence angle \<open>-2.0\<close>. At the first
  boundary \<open>sin_beta = sin(-2 degrees)\<close> and the refraction angle is \<open>-2\<close> (in Python as
  well: \<open>degrees(asin(sin(radians(-2.0)) * (1500 / 1500))) == -2\<close>); the trace ends with one
  label and two vertices of the four a full trace has.
\<close>

theorem minus_two_degrees_stops_witness:
  "valid_input [[PInt 0, PInt 10, PInt 1500], [PInt 10, PInt 30, PInt 1500], [PInt 30, PInt 60, PInt 1500]]
      (PFloat (- 2)) (PInt 5) \<and>
   \<bar>exact_sin_beta (- 2) 1500 1500\<bar> \<le> 1 \<and>
   exact_asin_degrees (exact_sin_beta (- 2) 1500 1500) = - 2 \<and>
   (\<exists>res. trace_ray_with exact_sin_beta exact_asin_degrees
        [[PInt 0, PInt 10, PInt 1500], [PInt 10, PInt 30, PInt 1500], [PInt 30, PInt 60, PInt 1500]]
        (PFloat (- 2)) (PInt 5) = Inr res \<and>
      fst (labels res ! 0) = PFloat (- 2) \<and>
      length (labels res) = 1 \<and> length (coords_x res) = 2 \<and> length (coords_y res) = 2)"
proof -
  let ?model = "[[PInt 0, PInt 10, PInt 1500], [PInt 10, PInt 30, PInt 1500], [PInt 30, PInt 60, PInt 1500]]"
  have inside: "source_in_layer (PInt 5) [PInt 0, PInt 10, PInt 1500] = Inr True"
    by (simp add: source_in_layer_def py_getitem_def)
  have input: "valid_input ?model (PFloat (- 2)) (PInt 5)"
    by (simp add: valid_input_def inside)
  have s: "source_index ?model (PInt 5) = 0"
    using inside by (rule source_index_first)
  have bound: "\<bar>exact_sin_beta (- 2) 1500 1500\<bar> \<le> 1"
    by (simp add: exact_sin_beta_def)
  have angle: "exact_asin_degrees (exact_sin_beta (- 2) 1500 1500) = - 2"
    using refraction_of_minus_two by (simp add: exact_sin_beta_def exact_asin_degrees_def)
  from minus_two_degrees_stops [THEN mp, OF input] obtain res where
    res: "trace_ray_with exact_sin_beta exact_asin_degrees ?model (PFloat (- 2)) (PInt 5) = Inr res"
    and stop: "\<And>j. j < length (labels res) \<and>
             source_index ?model (PInt 5) + Suc j < length ?model \<and>
             \<bar>exact_sin_beta (py_value (fst (labels res ! j)))
                (layer_velocity (?model ! (source_index ?model (PInt 5) + Suc j)))
                (layer_velocity (?model ! (source_index ?model (PInt 5) + j)))\<bar> \<le> 1 \<and>
             exact_asin_degrees (exact_sin_beta (py_value (fst (labels res ! j)))
                (layer_velocity (?model ! (source_index ?model (PInt 5) + Suc j)))
                (layer_velocity (?model ! (source_index ?model (PInt 5) + j)))) = - 2 \<Longrightarrow>
             length (labels res) = Suc j \<and>
             length (coords_x res) = j + 2 \<and> length (coords_y res) = j + 2 \<and>
             length (coords_x res) < length ?model - source_index ?model (PInt 5) + 1"
    by blast
  from trace_ray_with_valid [OF input, of exact_sin_beta exact_asin_degrees] res
  have labs: "labels res = segment_labels
      (traced_segments_with exact_sin_beta exact_asin_degrees ?model (PFloat (- 2)) (PInt 5))"
    by auto
  have first: "fst (labels res ! 0) = PFloat (- 2)"
    unfolding labs by (rule traced_first_angle_with [OF input])
  have nonempty: "0 < length (labels res)"
    unfolding labs using traced_length_with(1) [OF input] by simp
  from stop [of 0] nonempty bound angle
  have "length (labels res) = 1 \<and> length (coords_x res) = 2 \<and> length (coords_y res) = 2"
    by (simp add: s first layer_velocity_def)
  with input res bound angle first show ?thesis
    by (intro conjI exI [of _ res]) simp_all
qed

lemma sin_not_critical: "\<not> 1 < \<bar>sin (x :: real)\<bar>"
  using abs_sin_le_one [of x] by linarith

text \<open>
  Where rounding moves the computed angle off \<open>-2\<close>, the trace goes on. Three layers of
  velocity 1500, source at depth 5, incidence angle -178: the exact refraction angle is -2,
  the program's double is \<open>-2.0000000000000098\<close> (written as a fraction below), and with that value for
  \<open>degrees(asin(s))\<close> all three layers are traversed.
\<close>

lemma rounded_angle_goes_on:
  "\<exists>res. trace_ray_with exact_sin_beta (\<lambda>s. - (10000000000000049 / 5000000000000000))
        [[PInt 0, PInt 10, PInt 1500], [PInt 10, PInt 30, PInt 1500], [PInt 30, PInt 60, PInt 1500]]
        (PInt (- 178)) (PInt 5) = Inr res \<and>
     length (labels res) = 3 \<and> length (coords_x res) = 4"
proof -
  let ?model = "[[PInt 0, PInt 10, PInt 1500], [PInt 10, PInt 30, PInt 1500], [PInt 30, PInt 60, PInt 1500]]"
  let ?rounded = "\<lambda>s :: real. - (10000000000000049 / 5000000000000000) :: real"
  let ?segs = "traced_segments_with exact_sin_beta ?rounded ?model (PInt (- 178)) (PInt 5)"
  have inside: "source_in_layer (PInt 5) [PInt 0, PInt 10, PInt 1500] = Inr True"
    by (simp add: source_in_layer_def py_getitem_def)
  have input: "valid_input ?model (PInt (- 178)) (PInt 5)"
    by (simp add: valid_input_def inside)
  have s: "source_index ?model (PInt 5) = 0"
    using inside by (rule source_index_first)
  have refr: "count_angle_with exact_sin_beta ?rounded angle (PInt 1500) (PInt 1500) =
      Inr (PFloat (- (10000000000000049 / 5000000000000000)))" if "is_number angle" for angle
    using that by (simp add: count_angle_with_value exact_sin_beta_def sin_not_critical)
  have "length ?segs = 3"
    by (simp add: traced_segments_with_def s refr)
  with trace_ray_with_valid [OF input, of exact_sin_beta ?rounded] show ?thesis
    by auto
qed

end
